theory Spec2Isabelle
  imports Main "HOL-Library.Word" "HOL-Library.Sublist"
begin

unbundle bit_operations_syntax

section \<open>Basic types (blocks\_types.h)\<close>

type_synonym u8 = "8 word"
type_synonym u32 = "32 word"
type_synonym u64 = "64 word"

text \<open>
  Every way a call can leave its function other than by returning: a failed \<open>assert\<close>
  (the process aborts), a thrown exception, \<open>exit(n)\<close> from the CLI progress handler,
  the trap of an integer division by zero, a write past the end of a buffer, and the plain
  \<open>std::exception\<close> that \<open>throw err\<close> produces from a \<open>const std::exception&\<close>.
\<close>

datatype error =
    AssertionFailed string
  | RuntimeError string
  | InvalidArgument string
  | CantShrink
  | UnsupportedSuperblock string
  | MissingRequirement
  | ProcessExit int
  | DivisionByZero
  | UndefinedBehaviour string
  | StdException

definition BCACHE_MAGIC :: "u8 list" where
  "BCACHE_MAGIC = [0xc6, 0x85, 0x73, 0xf6, 0x4e, 0x1a, 0x45, 0xca,
                   0x82, 0x65, 0xf5, 0x7f, 0x48, 0xba, 0x6d, 0x81]"

definition LVM_PE_SIZE :: u64 where
  "LVM_PE_SIZE = 4 * 1024 * 1024"

definition ASCII_ALNUM_WHITELIST :: string where
  "ASCII_ALNUM_WHITELIST =
     ''abcdefghijklmnopqrstuvwxyzABCDEFGHIJKLMNOPQRSTUVWXYZ0123456789.''"

text \<open>\<open>bytes_to_sector\<close> divides first and asserts afterwards; both are the same failure.\<close>

definition bytes_to_sector :: "u64 \<Rightarrow> error + u64" where
  "bytes_to_sector by =
     (if by mod 512 = 0 then Inr (by div 512)
      else Inl (AssertionFailed ''by % 512 == 0''))"

text \<open>\<open>align\<close> is \<open>(size / align) * align\<close>; a zero alignment traps.\<close>

definition align :: "u64 \<Rightarrow> u64 \<Rightarrow> error + u64" where
  "align sz al = (if al = 0 then Inl DivisionByZero else Inr ((sz div al) * al))"

section \<open>Byte-level I/O on a device\<close>

text \<open>
  The bytes of a block device are a list of octets. \<open>pread(fd, buf, count, offset)\<close>
  returns the bytes it could read (fewer than \<open>count\<close> at the end of the device) and fails
  (\<open>-1\<close>, here \<open>None\<close>) on a negative \<open>off_t\<close>. \<open>pwrite\<close> fails the same way on a negative
  offset and otherwise overwrites in place, never past the end of the device; it returns
  the number of bytes written with the new contents.
\<close>

definition pread :: "u8 list \<Rightarrow> nat \<Rightarrow> int \<Rightarrow> u8 list option" where
  "pread dev count off =
     (if off < 0 then None else Some (take count (drop (nat off) dev)))"

definition pwrite :: "u8 list \<Rightarrow> u8 list \<Rightarrow> int \<Rightarrow> (nat \<times> u8 list) option" where
  "pwrite dev buf off =
     (if off < 0 then None
      else let n = min (length buf) (length dev - nat off)
           in Some (n, take (nat off) dev @ take n buf @ drop (nat off + n) dev))"

section \<open>BlockDevice (block\_device.cpp)\<close>

text \<open>
  What the probes of a \<open>BlockDevice\<close> see: the number printed by
  \<open>blockdev --getsize64\<close> (\<open>None\<close> when \<open>std::stoull\<close> cannot parse the output),
  whether a read-only \<open>open\<close> succeeds, and the bytes on the device.
\<close>

record block_device =
  devpath :: string
  getsize64 :: "u64 option"
  ro_openable :: bool
  content :: "u8 list"

definition size_dev :: "block_device \<Rightarrow> error + u64" where
  "size_dev d =
     (case getsize64 d of
        None \<Rightarrow> Inl (InvalidArgument ''stoull'')
      | Some size_value \<Rightarrow>
          if size_value mod 512 = 0 then Inr size_value
          else Inl (AssertionFailed ''size_value % 512 == 0''))"

definition has_bcache_superblock :: "block_device \<Rightarrow> error + bool" where
  "has_bcache_superblock d =
     (case size_dev d of
        Inl e \<Rightarrow> Inl e
      | Inr sz \<Rightarrow>
          if sz \<le> 8192 then Inr False
          else if \<not> ro_openable d
            then Inl (RuntimeError ''Failed to open device for bcache detection'')
          else (case pread (content d) 16 (4096 + 24) of
                  None \<Rightarrow> Inr False
                | Some magic \<Rightarrow>
                    if length magic \<noteq> 16 then Inr False
                    else Inr (magic = BCACHE_MAGIC)))"

section \<open>LUKS (container.cpp)\<close>

text \<open>
  \<open>memcpy\<close> into a \<open>uint32_t\<close> followed by \<open>be32toh\<close> reads four bytes as a big-endian
  number on every host; \<open>htobe32\<close> followed by \<open>memcpy\<close> writes them back.
\<close>

definition be16_decode :: "u8 list \<Rightarrow> 16 word" where
  "be16_decode bs = push_bit 8 (ucast (bs ! 0)) OR ucast (bs ! 1)"

definition be32_decode :: "u8 list \<Rightarrow> u32" where
  "be32_decode bs =
     push_bit 24 (ucast (bs ! 0)) OR push_bit 16 (ucast (bs ! 1)) OR
     push_bit 8 (ucast (bs ! 2)) OR ucast (bs ! 3)"

definition be32_encode :: "u32 \<Rightarrow> u8 list" where
  "be32_encode w =
     [ucast (drop_bit 24 w), ucast (drop_bit 16 w), ucast (drop_bit 8 w), ucast w]"

definition LUKS_MAGIC :: "u8 list" where
  "LUKS_MAGIC = [0x4c, 0x55, 0x4b, 0x53, 0xba, 0xbe]"

text \<open>
  The fields of a \<open>LUKS\<close> object that the low-level routines use: \<open>offset\<close> (inherited
  from \<open>SimpleContainer\<close>, set by \<open>read_superblock\<close> from \<open>cryptsetup luksDump\<close>) and
  \<open>sb_end\<close>.
\<close>

record luks =
  offset :: u64
  sb_end :: u64

text \<open>
  The loop over the eight key slots of \<open>read_superblock_ll\<close>. The products
  \<open>key_stripes * key_bytes\<close> and \<open>key_offset * 512\<close> are computed on \<open>uint32_t\<close> and only
  then widened to \<open>uint64_t\<close>.
\<close>

fun key_slots :: "u8 list \<Rightarrow> u32 \<Rightarrow> nat list \<Rightarrow> u64 \<Rightarrow> error + u64" where
  "key_slots fd key_bytes [] sb_end_tmp = Inr sb_end_tmp"
| "key_slots fd key_bytes (key_slot # rest) sb_end_tmp =
     (case pread fd 8 (208 + 48 * int key_slot + 40) of
        None \<Rightarrow> Inl (RuntimeError ''Failed to read LUKS key slot info'')
      | Some buffer \<Rightarrow>
          if length buffer \<noteq> 8 then Inl (RuntimeError ''Failed to read LUKS key slot info'')
          else
            let key_offset = be32_decode (take 4 buffer);
                key_stripes = be32_decode (drop 4 buffer)
            in if key_stripes \<noteq> 4000
               then Inl (RuntimeError ''Unexpected LUKS key stripes value'')
               else
                 let key_size = (ucast (key_stripes * key_bytes) :: u64);
                     key_end = (ucast (key_offset * 512) :: u64) + key_size
                 in key_slots fd key_bytes rest
                      (if key_end > sb_end_tmp then key_end else sb_end_tmp))"

definition read_superblock_ll :: "luks \<Rightarrow> u8 list \<Rightarrow> error + luks" where
  "read_superblock_ll l fd =
     (case pread fd 8 0 of
        None \<Rightarrow> Inl (RuntimeError ''Failed to read LUKS header magic'')
      | Some buffer \<Rightarrow>
          if length buffer \<noteq> 8 then Inl (RuntimeError ''Failed to read LUKS header magic'')
          else if take 6 buffer \<noteq> LUKS_MAGIC then Inl (RuntimeError ''Invalid LUKS magic'')
          else if be16_decode (drop 6 buffer) \<noteq> 1
            then Inl (RuntimeError ''Unsupported LUKS version'')
          else
            (case pread fd 8 104 of
               None \<Rightarrow> Inl (RuntimeError ''Failed to read LUKS payload info'')
             | Some buffer2 \<Rightarrow>
                 if length buffer2 \<noteq> 8
                 then Inl (RuntimeError ''Failed to read LUKS payload info'')
                 else
                   let payload_start_sectors = be32_decode (take 4 buffer2);
                       key_bytes = be32_decode (drop 4 buffer2)
                   in (case key_slots fd key_bytes [0..<8] 592 of
                         Inl e \<Rightarrow> Inl e
                       | Inr sb_end_tmp \<Rightarrow>
                           let ll_offset = (ucast (payload_start_sectors * 512) :: u64)
                           in if ll_offset \<noteq> offset l
                              then Inl (RuntimeError
                                ''LUKS offset mismatch between high-level and low-level reads'')
                              else if ll_offset < sb_end_tmp
                              then Inl (RuntimeError
                                ''LUKS payload offset is less than superblock end'')
                              else Inr (l\<lparr>sb_end := sb_end_tmp\<rparr>))))"


text \<open>
  The header fields that \<open>read_superblock_ll\<close> decodes, by their byte offsets: the payload
  start in sectors at 104, the key length at 108, and for key slot \<open>k\<close> (stride 48 from
  208) the key material offset at +40 and the stripes at +44.
\<close>

definition luks_payload_start :: "u8 list \<Rightarrow> u32" where
  "luks_payload_start fd = be32_decode (drop 104 fd)"

definition luks_key_bytes :: "u8 list \<Rightarrow> u32" where
  "luks_key_bytes fd = be32_decode (drop 108 fd)"

definition luks_key_offset :: "u8 list \<Rightarrow> nat \<Rightarrow> u32" where
  "luks_key_offset fd k = be32_decode (drop (208 + 48 * k + 40) fd)"

definition luks_key_stripes :: "u8 list \<Rightarrow> nat \<Rightarrow> u32" where
  "luks_key_stripes fd k = be32_decode (drop (208 + 48 * k + 44) fd)"

text \<open>The end of the key material of slot \<open>k\<close>, as the loop computes it.\<close>

definition key_end :: "u8 list \<Rightarrow> u32 \<Rightarrow> nat \<Rightarrow> u64" where
  "key_end fd kb k = ucast (luks_key_offset fd k * 512) + ucast (4000 * kb)"

text \<open>
  A well-formed LUKS1 header for examples: magic, version 1, the payload start and key
  length, and eight key slots of 48 bytes with 4000 stripes each.
\<close>

definition luks_slot :: "u32 \<Rightarrow> u8 list" where
  "luks_slot ko = replicate 40 0 @ be32_encode ko @ be32_encode 4000"

definition luks_header :: "u32 \<Rightarrow> u32 \<Rightarrow> u32 list \<Rightarrow> u8 list" where
  "luks_header ps kb kos =
     LUKS_MAGIC @ [0, 1] @ replicate 96 0 @ be32_encode ps @ be32_encode kb @
     replicate 96 0 @ concat (map luks_slot kos)"

text \<open>
  Two devices of 52 MiB: a LUKS1 header with 256-bit keys (\<open>key_bytes = 32\<close>) and one
  with 192-bit keys (\<open>key_bytes = 24\<close>), payload at sector 4096, key material where
  cryptsetup puts it.
\<close>

definition luks_example_dev :: "u8 list" where
  "luks_example_dev =
     luks_header 4096 32 [8, 264, 520, 776, 1032, 1288, 1544, 1800] @ replicate 54525360 0"

definition luks_example_dev_192 :: "u8 list" where
  "luks_example_dev_192 =
     luks_header 4096 24 [8, 200, 392, 584, 776, 968, 1160, 1352] @ replicate 54525360 0"


section \<open>SyntheticDevice (synthetic\_device.cpp)\<close>

record synthetic_device =
  data :: "u8 list"
  writable_hdr_size :: u64
  rz_size :: u64
  writable_end_size :: u64

text \<open>
  \<open>copy_to_physical(dev_fd, shift_by, reserved_area, other_device)\<close>. The parameter
  \<open>shift_by\<close> is a \<open>uint64_t\<close>, so the test \<open>shift_by < 0\<close> is a comparison of an unsigned
  value with zero; \<open>pwrite\<close> and \<open>pread\<close> take it as an \<open>off_t\<close>, the same 64 bits read
  as a signed number. The read back after each write is compared with what was written.
\<close>

definition copy_to_physical ::
  "synthetic_device \<Rightarrow> u8 list \<Rightarrow> u64 \<Rightarrow> u64 \<Rightarrow> bool \<Rightarrow> (error + unit) \<times> u8 list" where
  "copy_to_physical sd dev_fd shift_by0 reserved_area other_device =
     (if length (data sd) \<noteq> unat (writable_hdr_size sd + writable_end_size sd)
      then (Inl (AssertionFailed ''data.size() == writable_hdr_size + writable_end_size''), dev_fd)
      else if length (data sd) < unat (writable_hdr_size sd)
      then (Inl (UndefinedBehaviour ''data.begin() + writable_hdr_size past data.end()''), dev_fd)
      else
        let start_data = take (unat (writable_hdr_size sd)) (data sd);
            end_data = drop (unat (writable_hdr_size sd)) (data sd);
            wrend_offset = writable_hdr_size sd + rz_size sd + shift_by0;
            size = writable_hdr_size sd + rz_size sd + writable_end_size sd
        in if shift_by0 < 0 \<and> other_device
           then (Inl (AssertionFailed ''!other_device''), dev_fd)
           else
             let shift_by = (if shift_by0 < 0 then shift_by0 + size else shift_by0)
             in if reserved_area \<noteq> 0 \<and> \<not> shift_by \<ge> reserved_area
                then (Inl (AssertionFailed ''shift_by >= reserved_area''), dev_fd)
                else if reserved_area \<noteq> 0 \<and> \<not> wrend_offset \<ge> reserved_area
                then (Inl (AssertionFailed ''wrend_offset >= reserved_area''), dev_fd)
                else if \<not> other_device \<and>
                        \<not> (0 \<le> shift_by \<and> shift_by + writable_hdr_size sd \<le> size)
                then (Inl (AssertionFailed
                       ''0 <= shift_by && shift_by + writable_hdr_size <= size''), dev_fd)
                else if \<not> other_device \<and> writable_end_size sd \<noteq> 0 \<and>
                        \<not> (0 \<le> wrend_offset \<and> wrend_offset + writable_end_size sd \<le> size)
                then (Inl (AssertionFailed
                       ''0 <= wrend_offset && wrend_offset + writable_end_size <= size''), dev_fd)
                else
                  (case pwrite dev_fd start_data (sint shift_by) of
                     None \<Rightarrow> (Inl (RuntimeError ''Write to physical device failed''), dev_fd)
                   | Some (written, dev1) \<Rightarrow>
                       if written \<noteq> unat (writable_hdr_size sd)
                       then (Inl (RuntimeError ''Write to physical device failed''), dev1)
                       else
                         (case pread dev1 (unat (writable_hdr_size sd)) (sint shift_by) of
                            None \<Rightarrow>
                              (Inl (RuntimeError ''Read back from physical device failed''), dev1)
                          | Some read_back \<Rightarrow>
                              if length read_back \<noteq> unat (writable_hdr_size sd)
                              then (Inl (RuntimeError
                                     ''Read back from physical device failed''), dev1)
                              else if read_back \<noteq> start_data
                              then (Inl (AssertionFailed ''memcmp(start_data, read_back)''), dev1)
                              else if writable_end_size sd = 0 then (Inr (), dev1)
                              else
                                (case pwrite dev1 end_data (sint wrend_offset) of
                                   None \<Rightarrow>
                                     (Inl (RuntimeError
                                       ''Write end data to physical device failed''), dev1)
                                 | Some (written2, dev2) \<Rightarrow>
                                     if written2 \<noteq> unat (writable_end_size sd)
                                     then (Inl (RuntimeError
                                       ''Write end data to physical device failed''), dev2)
                                     else
                                       (case pread dev2 (unat (writable_end_size sd))
                                               (sint wrend_offset) of
                                          None \<Rightarrow>
                                            (Inl (RuntimeError
                                              ''Read back end data failed''), dev2)
                                        | Some read_back2 \<Rightarrow>
                                            if length read_back2 \<noteq> unat (writable_end_size sd)
                                            then (Inl (RuntimeError
                                              ''Read back end data failed''), dev2)
                                            else if read_back2 \<noteq> end_data
                                            then (Inl (AssertionFailed
                                              ''memcmp(end_data, read_back)''), dev2)
                                            else (Inr (), dev2))))))"

section \<open>Progress listeners (blocks\_types.h)\<close>

text \<open>
  \<open>bail\<close> never returns: the CLI handler calls \<open>exit(2)\<close>, the default handler throws its
  argument, which it holds as a \<open>const std::exception&\<close>.
\<close>

datatype progress_listener = CLIProgressHandler | DefaultProgressHandler

fun bail :: "progress_listener \<Rightarrow> error \<Rightarrow> error" where
  "bail CLIProgressHandler err = ProcessExit 2"
| "bail DefaultProgressHandler err = StdException"

section \<open>Layers (filesystem.cpp, container.cpp)\<close>

datatype fs_class = ExtFS | XFS | BtrFS | NilFS | ReiserFS | Swap

record filesystem =
  fs_class :: fs_class
  block_size :: u64
  block_count :: u64
  size_bytes :: u64
  sb_size_in_bytes :: bool

record bcache_backing =
  bc_offset :: u64
  bc_device_size :: u64
  bc_activated :: bool

datatype layer =
    LUKS_layer luks
  | BCache_layer bcache_backing
  | FS_layer filesystem

fun can_shrink :: "fs_class \<Rightarrow> bool" where
  "can_shrink XFS = False"
| "can_shrink _ = True"

definition fssize :: "filesystem \<Rightarrow> error + u64" where
  "fssize fs =
     (if sb_size_in_bytes fs then
        (if block_size fs = 0 then Inl DivisionByZero
         else if size_bytes fs mod block_size fs \<noteq> 0
         then Inl (AssertionFailed ''size_bytes % block_size == 0'')
         else Inr (size_bytes fs))
      else Inr (block_size fs * block_count fs))"

text \<open>
  What lies behind the external tools: \<open>_mount_and_resize\<close> up to and including the new
  \<open>read_superblock\<close> (the file system as re-read, or the failure); the
  \<open>cryptsetup resize\<close> of a LUKS mapping with the check of the new cleartext size (the
  object afterwards, since \<open>snoop_activated\<close> may read the superblock); and the size of the
  cached device after \<open>max\<close> was written to a bcache device's \<open>resize\<close> file.
\<close>

record layer_env =
  fs_resize :: "filesystem \<Rightarrow> u64 \<Rightarrow> error + filesystem"
  luks_resize :: "luks \<Rightarrow> u64 \<Rightarrow> error + luks"
  bcache_resize :: "bcache_backing \<Rightarrow> error + u64"

definition mount_and_resize :: "layer_env \<Rightarrow> filesystem \<Rightarrow> u64 \<Rightarrow> error + filesystem" where
  "mount_and_resize env fs pos =
     (case fs_resize env fs pos of
        Inl e \<Rightarrow> Inl e
      | Inr fs' \<Rightarrow>
          (case fssize fs' of
             Inl e \<Rightarrow> Inl e
           | Inr sz \<Rightarrow>
               if sz = pos then Inr fs' else Inl (AssertionFailed ''fssize() == pos'')))"

definition fs_reserve_end_area_nonrec ::
  "layer_env \<Rightarrow> filesystem \<Rightarrow> u64 \<Rightarrow> error + filesystem \<times> u64" where
  "fs_reserve_end_area_nonrec env fs pos0 =
     (case align pos0 (block_size fs) of
        Inl e \<Rightarrow> Inl e
      | Inr pos \<Rightarrow>
          (case fssize fs of
             Inl e \<Rightarrow> Inl e
           | Inr sz \<Rightarrow>
               if sz \<le> pos then Inr (fs, pos)
               else if \<not> can_shrink (fs_class fs) then Inl CantShrink
               else (case mount_and_resize env fs pos of
                       Inl e \<Rightarrow> Inl e
                     | Inr fs' \<Rightarrow> Inr (fs', pos))))"

definition fs_grow_nonrec ::
  "layer_env \<Rightarrow> filesystem \<Rightarrow> u64 \<Rightarrow> error + filesystem \<times> u64" where
  "fs_grow_nonrec env fs upper_bound =
     (case align upper_bound (block_size fs) of
        Inl e \<Rightarrow> Inl e
      | Inr newsize \<Rightarrow>
          (case fssize fs of
             Inl e \<Rightarrow> Inl e
           | Inr sz \<Rightarrow>
               if \<not> sz \<le> newsize then Inl (AssertionFailed ''fssize() <= newsize'')
               else if sz = newsize then Inr (fs, newsize)
               else (case mount_and_resize env fs newsize of
                       Inl e \<Rightarrow> Inl e
                     | Inr fs' \<Rightarrow> Inr (fs', newsize))))"

definition luks_reserve_end_area_nonrec ::
  "layer_env \<Rightarrow> luks \<Rightarrow> u64 \<Rightarrow> error + luks \<times> u64" where
  "luks_reserve_end_area_nonrec env l pos =
     (let inner_size = pos - offset l
      in case bytes_to_sector inner_size of
           Inl e \<Rightarrow> Inl e
         | Inr sectors \<Rightarrow>
             (case luks_resize env l sectors of
                Inl e \<Rightarrow> Inl e
              | Inr l' \<Rightarrow> Inr (l', pos)))"

definition luks_grow_nonrec ::
  "layer_env \<Rightarrow> luks \<Rightarrow> u64 \<Rightarrow> error + luks \<times> u64" where
  "luks_grow_nonrec env l upper_bound = luks_reserve_end_area_nonrec env l upper_bound"

definition bcache_grow_nonrec ::
  "layer_env \<Rightarrow> bcache_backing \<Rightarrow> u64 \<Rightarrow> error + bcache_backing \<times> u64" where
  "bcache_grow_nonrec env b upper_bound =
     (if upper_bound \<noteq> bc_device_size b
      then Inl (RuntimeError ''Not implemented: bcache resize to size other than device size'')
      else if \<not> bc_activated b then Inr (b, upper_bound)
      else (case bcache_resize env b of
              Inl e \<Rightarrow> Inl e
            | Inr cached_size \<Rightarrow>
                if cached_size + bc_offset b \<noteq> upper_bound
                then Inl (RuntimeError
                  ''Bcache resize failed: cached device size + offset != upper_bound'')
                else Inr (b, upper_bound)))"

section \<open>BlockStack (block\_stack.cpp)\<close>

text \<open>
  A stack is the vector of its layers, outermost first. A run of a stack operation is
  the list of the per-layer calls it made, in order, and its outcome: the stack with the
  layers as the calls left them, or the failure that ended it.
\<close>

datatype layer_call =
    Reserve_end_area_nonrec layer u64
  | Grow_nonrec layer u64

type_synonym 'a run = "layer_call list \<times> (error + 'a)"

definition wrappers :: "layer list \<Rightarrow> layer list" where
  "wrappers stack = (if stack = [] then [] else butlast stack)"

definition topmost :: "layer list \<Rightarrow> layer option" where
  "topmost stack = (if stack = [] then None else Some (last stack))"

text \<open>The \<open>offset\<close> of a layer that casts to \<open>SimpleContainer\<close>.\<close>

fun container_offset :: "layer \<Rightarrow> u64 option" where
  "container_offset (LUKS_layer l) = Some (offset l)"
| "container_offset (BCache_layer b) = Some (bc_offset b)"
| "container_offset (FS_layer fs) = None"

fun overhead_loop :: "u64 \<Rightarrow> layer list \<Rightarrow> u64" where
  "overhead_loop total_offset [] = total_offset"
| "overhead_loop total_offset (wrapper # rest) =
     overhead_loop
       (case container_offset wrapper of
          Some off \<Rightarrow> total_offset + off
        | None \<Rightarrow> total_offset) rest"

definition overhead :: "layer list \<Rightarrow> u64" where
  "overhead stack = overhead_loop 0 (wrappers stack)"

fun iter_pos_loop :: "u64 \<Rightarrow> layer list \<Rightarrow> (u64 \<times> layer) list \<times> u64" where
  "iter_pos_loop pos [] = ([], pos)"
| "iter_pos_loop pos (block_data # rest) =
     (let (result, pos') =
            iter_pos_loop
              (case container_offset block_data of
                 Some off \<Rightarrow> pos - off
               | None \<Rightarrow> pos) rest
      in ((pos, block_data) # result, pos'))"

definition iter_pos :: "layer list \<Rightarrow> u64 \<Rightarrow> (u64 \<times> layer) list" where
  "iter_pos stack pos =
     (let (result, pos') = iter_pos_loop pos (wrappers stack)
      in case topmost stack of
           None \<Rightarrow> result
         | Some tm \<Rightarrow> result @ [(pos', tm)])"

text \<open>
  The loop of \<open>stack_reserve_end_area\<close> over the reversed positions. It returns the
  layers in the order it visited them. A bcache layer matches neither cast of the loop
  body and is passed over.
\<close>

fun reserve_loop :: "layer_env \<Rightarrow> (u64 \<times> layer) list \<Rightarrow> layer list run" where
  "reserve_loop env [] = ([], Inr [])"
| "reserve_loop env ((inner_pos, FS_layer fs) # rest) =
     (case fs_reserve_end_area_nonrec env fs inner_pos of
        Inl e \<Rightarrow> ([Reserve_end_area_nonrec (FS_layer fs) inner_pos], Inl e)
      | Inr (fs', _) \<Rightarrow>
          (case reserve_loop env rest of
             (calls, r) \<Rightarrow>
               (Reserve_end_area_nonrec (FS_layer fs) inner_pos # calls,
                map_sum id ((#) (FS_layer fs')) r)))"
| "reserve_loop env ((inner_pos, LUKS_layer l) # rest) =
     (case luks_reserve_end_area_nonrec env l inner_pos of
        Inl e \<Rightarrow> ([Reserve_end_area_nonrec (LUKS_layer l) inner_pos], Inl e)
      | Inr (l', _) \<Rightarrow>
          (case reserve_loop env rest of
             (calls, r) \<Rightarrow>
               (Reserve_end_area_nonrec (LUKS_layer l) inner_pos # calls,
                map_sum id ((#) (LUKS_layer l')) r)))"
| "reserve_loop env ((inner_pos, BCache_layer b) # rest) =
     (case reserve_loop env rest of
        (calls, r) \<Rightarrow> (calls, map_sum id ((#) (BCache_layer b)) r))"

definition stack_reserve_end_area ::
  "layer_env \<Rightarrow> progress_listener \<Rightarrow> layer list \<Rightarrow> u64 \<Rightarrow> layer list run" where
  "stack_reserve_end_area env progress stack pos =
     (case topmost stack of
        Some (FS_layer fs) \<Rightarrow>
          (case align (pos - overhead stack) (block_size fs) of
             Inl e \<Rightarrow> ([], Inl e)
           | Inr inner_pos \<Rightarrow>
               (case fssize fs of
                  Inl e \<Rightarrow> ([], Inl e)
                | Inr sz \<Rightarrow>
                    if sz > inner_pos \<and> \<not> can_shrink (fs_class fs)
                    then ([], Inl (bail progress CantShrink))
                    else
                      (case reserve_loop env (rev (iter_pos stack pos)) of
                         (calls, r) \<Rightarrow> (calls, map_sum id rev r))))
      | _ \<Rightarrow> ([], Inl (bail progress (RuntimeError ''Invalid stack''))))"

text \<open>
  The loop of \<open>stack_grow\<close> over the wrappers: a container grows and its offset, read
  after the call, is taken off the size handed to the next layer. A wrapper that does
  not cast to \<open>SimpleContainer\<close> is passed over.
\<close>

fun grow_loop :: "layer_env \<Rightarrow> u64 \<Rightarrow> layer list \<Rightarrow> (layer list \<times> u64) run" where
  "grow_loop env current_size [] = ([], Inr ([], current_size))"
| "grow_loop env current_size (LUKS_layer l # rest) =
     (case luks_grow_nonrec env l current_size of
        Inl e \<Rightarrow> ([Grow_nonrec (LUKS_layer l) current_size], Inl e)
      | Inr (l', sz) \<Rightarrow>
          (case grow_loop env (sz - offset l') rest of
             (calls, r) \<Rightarrow>
               (Grow_nonrec (LUKS_layer l) current_size # calls,
                map_sum id (\<lambda>(ls, s). (LUKS_layer l' # ls, s)) r)))"
| "grow_loop env current_size (BCache_layer b # rest) =
     (case bcache_grow_nonrec env b current_size of
        Inl e \<Rightarrow> ([Grow_nonrec (BCache_layer b) current_size], Inl e)
      | Inr (b', sz) \<Rightarrow>
          (case grow_loop env (sz - bc_offset b') rest of
             (calls, r) \<Rightarrow>
               (Grow_nonrec (BCache_layer b) current_size # calls,
                map_sum id (\<lambda>(ls, s). (BCache_layer b' # ls, s)) r)))"
| "grow_loop env current_size (FS_layer fs # rest) =
     (case grow_loop env current_size rest of
        (calls, r) \<Rightarrow> (calls, map_sum id (\<lambda>(ls, s). (FS_layer fs # ls, s)) r))"

definition stack_grow :: "layer_env \<Rightarrow> layer list \<Rightarrow> u64 \<Rightarrow> layer list run" where
  "stack_grow env stack newsize =
     (case grow_loop env newsize (wrappers stack) of
        (calls, Inl e) \<Rightarrow> (calls, Inl e)
      | (calls, Inr (ws, current_size)) \<Rightarrow>
          (case topmost stack of
             Some (FS_layer fs) \<Rightarrow>
               (case fs_grow_nonrec env fs current_size of
                  Inl e \<Rightarrow> (calls @ [Grow_nonrec (FS_layer fs) current_size], Inl e)
                | Inr (fs', _) \<Rightarrow>
                    (calls @ [Grow_nonrec (FS_layer fs) current_size],
                     Inr (ws @ [FS_layer fs'])))
           | Some tm \<Rightarrow> (calls, Inr (ws @ [tm]))
           | None \<Rightarrow> (calls, Inr ws)))"

definition stack_resize ::
  "layer_env \<Rightarrow> progress_listener \<Rightarrow> layer list \<Rightarrow> u64 \<Rightarrow> bool \<Rightarrow> layer list run" where
  "stack_resize env progress stack pos shrink =
     (if shrink then stack_reserve_end_area env progress stack pos
      else stack_grow env stack pos)"

text \<open>
  For stating the order of the calls: the classes that have a \<open>reserve_end_area_nonrec\<close>
  at all (\<open>Filesystem\<close> and \<open>LUKS\<close>, not \<open>BCacheBacking\<close>); the offset a layer takes off
  the position of the layers inside it; the calls due on a list of positions; and the
  stacks \<open>get_block_stack\<close> builds, containers around one file system.
\<close>

fun has_reserve_end_area_nonrec :: "layer \<Rightarrow> bool" where
  "has_reserve_end_area_nonrec (BCache_layer b) = False"
| "has_reserve_end_area_nonrec _ = True"

definition layer_offset :: "layer \<Rightarrow> u64" where
  "layer_offset l = (case container_offset l of Some off \<Rightarrow> off | None \<Rightarrow> 0)"

definition reserve_calls :: "(u64 \<times> layer) list \<Rightarrow> layer_call list" where
  "reserve_calls ps =
     map (\<lambda>(p, l). Reserve_end_area_nonrec l p) (filter (\<lambda>(p, l). has_reserve_end_area_nonrec l) ps)"

definition well_formed_stack :: "layer list \<Rightarrow> bool" where
  "well_formed_stack stack \<longleftrightarrow>
     stack \<noteq> [] \<and> list_all (\<lambda>w. container_offset w \<noteq> None) (butlast stack) \<and>
     (case last stack of FS_layer fs \<Rightarrow> True | _ \<Rightarrow> False)"

text \<open>
  Example layers: tools that do what they are asked, an ext4 of 98 MiB and one of 39 MiB
  (4 KiB blocks), a LUKS container with its payload at 2 MiB, and a bcache backing device of
  100 MiB with its data at 8 KiB.
\<close>

definition tools_succeed :: layer_env where
  "tools_succeed =
     \<lparr>fs_resize = (\<lambda>fs pos. Inr (fs\<lparr>block_count := pos div block_size fs\<rparr>)),
      luks_resize = (\<lambda>l sectors. Inr l),
      bcache_resize = (\<lambda>b. Inr (bc_device_size b - bc_offset b))\<rparr>"

definition ext4_98M :: filesystem where
  "ext4_98M = \<lparr>fs_class = ExtFS, block_size = 4096, block_count = 25088, size_bytes = 0,
                sb_size_in_bytes = False\<rparr>"

definition ext4_39M :: filesystem where
  "ext4_39M = \<lparr>fs_class = ExtFS, block_size = 4096, block_count = 10000, size_bytes = 0,
                sb_size_in_bytes = False\<rparr>"

definition luks_2M :: luks where
  "luks_2M = \<lparr>offset = 2097152, sb_end = 0\<rparr>"

definition bcache_8K :: bcache_backing where
  "bcache_8K = \<lparr>bc_offset = 8192, bc_device_size = 104857600, bc_activated = True\<rparr>"

section \<open>Commands, their effects and their outcomes\<close>

text \<open>
  A command run is the list of what it did to the system, in order, with its outcome: a
  \<open>quiet_call\<close> of an external tool (argument vector and standard input), a shell line
  given to \<open>system\<close>, a per-layer call of a stack operation, the deactivation of a stack,
  an \<open>open\<close>, \<open>pread\<close> or \<open>pwrite\<close> on a device (path, count, offset), and a file
  written or removed. Probes that only read (\<open>blkid\<close>, \<open>blockdev\<close>, \<open>lvm vgs\<close>,
  \<open>which\<close>) are answered by the environment and leave no entry.
\<close>

datatype event =
    Quiet_call "string list" string
  | System_call string
  | Layer_call layer_call
  | Stack_deactivate
  | Open_excl string
  | Open_rdonly string
  | Pread string u64 u64
  | Pwrite string u64 u64
  | Write_file string string
  | Remove_file string

type_synonym 'a io = "event list \<times> (error + 'a)"

definition ret :: "'a \<Rightarrow> 'a io" where
  "ret x = ([], Inr x)"

definition fail :: "error \<Rightarrow> 'a io" where
  "fail e = ([], Inl e)"

definition emit :: "event \<Rightarrow> unit io" where
  "emit ev = ([ev], Inr ())"

definition bnd :: "'a io \<Rightarrow> ('a \<Rightarrow> 'b io) \<Rightarrow> 'b io" where
  "bnd m f =
     (case m of
        (evs, Inl e) \<Rightarrow> (evs, Inl e)
      | (evs, Inr x) \<Rightarrow> (case f x of (evs', r) \<Rightarrow> (evs @ evs', r)))"

definition check :: "bool \<Rightarrow> error \<Rightarrow> unit io" where
  "check b e = (if b then ret () else fail e)"

definition lift :: "error + 'a \<Rightarrow> 'a io" where
  "lift r = ([], r)"

definition layer_run :: "'a run \<Rightarrow> 'a io" where
  "layer_run r = (map Layer_call (fst r), snd r)"

fun join_cmd :: "string list \<Rightarrow> string" where
  "join_cmd [] = []"
| "join_cmd [c] = c"
| "join_cmd (c # cs) = c @ '' '' @ join_cmd cs"

text \<open>\<open>std::to_string\<close> of an unsigned number.\<close>

definition digit_char :: "nat \<Rightarrow> char" where
  "digit_char d = ''0123456789'' ! d"

fun to_string :: "nat \<Rightarrow> string" where
  "to_string n =
     (if n < 10 then [digit_char n] else to_string (n div 10) @ [digit_char (n mod 10)])"

declare to_string.simps [simp del]

text \<open>\<open>std::filesystem::path(p).filename()\<close>: what follows the last slash.\<close>

definition filename :: "string \<Rightarrow> string" where
  "filename p = rev (takeWhile (\<lambda>c. c \<noteq> CHR ''/'') (rev p))"

definition whitelisted :: "string \<Rightarrow> bool" where
  "whitelisted s = list_all (\<lambda>c. c \<in> set ASCII_ALNUM_WHITELIST) s"

section \<open>Device-mapper tables\<close>

text \<open>
  A table is a list of lines \<open>start length target\<close> in sectors; \<open>dmsetup create\<close> reads
  it as text, one line each. A sector of the mapped device belongs to the line whose
  range holds it; a \<open>linear\<close> target passes it on to a sector of its backing device, an
  \<open>error\<close> target fails every access.
\<close>

datatype dm_target = Linear string u64 | Error_target

type_synonym dm_table = "(u64 \<times> u64 \<times> dm_target) list"

fun render_line :: "u64 \<times> u64 \<times> dm_target \<Rightarrow> string" where
  "render_line (start, len, Linear dev off) =
     to_string (unat start) @ '' '' @ to_string (unat len) @ '' linear '' @ dev @ '' '' @
     to_string (unat off) @ [CHR 0x0A]"
| "render_line (start, len, Error_target) =
     to_string (unat start) @ '' '' @ to_string (unat len) @ '' error'' @ [CHR 0x0A]"

definition render_table :: "dm_table \<Rightarrow> string" where
  "render_table t = concat (map render_line t)"

fun dm_map :: "dm_table \<Rightarrow> nat \<Rightarrow> (string \<times> nat) option option" where
  "dm_map [] sector = None"
| "dm_map ((start, len, target) # rest) sector =
     (if unat start \<le> sector \<and> sector < unat start + unat len
      then Some (case target of
                   Linear dev off \<Rightarrow> Some (dev, unat off + (sector - unat start))
                 | Error_target \<Rightarrow> None)
      else dm_map rest sector)"

definition table_sectors :: "dm_table \<Rightarrow> nat" where
  "table_sectors t = sum_list (map (\<lambda>(start, len, target). unat len) t)"

section \<open>to-lvm (lvm\_operations.cpp)\<close>

record command_args =
  command :: string
  device :: string
  vgname :: string
  join :: string
  debug :: bool
  maintboot :: bool
  resize_device :: bool
  newsize :: u64

text \<open>
  What \<open>cmd_to_lvm\<close> learns from the system and how the system answers it.
  \<open>superblock_type\<close> is the type \<open>blkid\<close> reports when the command starts;
  \<open>cmd_ok\<close> tells whether a \<open>quiet_call\<close> exits with status 0; \<open>vgs_pe_size\<close> is the
  extent size of the volume group to join as \<open>std::stoul\<close> reads it; \<open>uuid_generate k\<close>
  is the \<open>k\<close>-th UUID of the run in text form; \<open>get_block_stack\<close> is the stack found
  below the device together with the activations made to find it; \<open>read_superblocks\<close>
  gives the layers with their fields filled in. The remaining fields answer the opens,
  reads and writes in the order of the code.
\<close>

record lvm_env =
  device_exists :: bool
  superblock_type :: string
  cmd_ok :: "string list \<Rightarrow> bool"
  which_lvm :: bool
  vgs_join_name :: string
  vgs_pe_size :: "u64 option"
  uuid_generate :: "nat \<Rightarrow> string"
  blockdev_getsize64 :: "u64 option"
  get_block_stack :: "event list \<times> (error + layer list)"
  stack_fslabel :: string
  stack_fsuuid :: string
  read_superblocks :: "layer list \<Rightarrow> error + layer list"
  layer_tools :: layer_env
  deactivate :: "layer list \<Rightarrow> error option"
  open_excl_copy_ok :: bool
  pread_copy_ok :: bool
  pwrite_copy_ok :: bool
  stale_dm_devices :: "string list"
  synth_exists :: bool
  cfgf_path :: string
  open_synth_ok :: bool
  pread_synth_ok :: bool
  open_excl_install_ok :: bool
  pwrite_install_ok :: bool

definition quiet_call :: "lvm_env \<Rightarrow> string list \<Rightarrow> string \<Rightarrow> unit io" where
  "quiet_call env cmd table =
     ([Quiet_call cmd table],
      if cmd_ok env cmd then Inr ()
      else Inl (RuntimeError (''Command failed: '' @ join_cmd cmd)))"

text \<open>A \<open>try\<close> block whose handler throws a \<open>std::runtime_error\<close> of its own.\<close>

definition rethrow_as :: "unit io \<Rightarrow> error \<Rightarrow> unit io" where
  "rethrow_as m e = (case m of (evs, Inl (RuntimeError _)) \<Rightarrow> (evs, Inl e) | _ \<Rightarrow> m)"

text \<open>
  The volume group name, the extent size and the name of the group to join
  (lines 335 to 382).
\<close>

definition choose_vg :: "lvm_env \<Rightarrow> command_args \<Rightarrow> error + string \<times> u64 \<times> string" where
  "choose_vg env args =
     (if join args \<noteq> [] then
        (case vgs_pe_size env of
           None \<Rightarrow> Inl (InvalidArgument ''stoul'')
         | Some pe_size \<Rightarrow> Inr (uuid_generate env 0, pe_size, vgs_join_name env))
      else if vgname args \<noteq> [] then Inr (vgname args, LVM_PE_SIZE, [])
      else Inr (''vg.'' @ filename (device args), LVM_PE_SIZE, []))"

definition choose_lvname :: "lvm_env \<Rightarrow> command_args \<Rightarrow> string" where
  "choose_lvname env args =
     (let lvname = (if stack_fslabel env \<noteq> [] then stack_fslabel env
                    else filename (device args))
      in if \<not> whitelisted lvname then ''lv1'' else lvname)"

text \<open>
  Lines 406 to 410: the extent size in sectors, the number of extents and the new place
  of the first extent. The division comes before the assertion on \<open>pe_size\<close>.
\<close>

definition lvm_geometry :: "u64 \<Rightarrow> u64 \<Rightarrow> error + u64 \<times> u64 \<times> u64" where
  "lvm_geometry device_size pe_size =
     (case bytes_to_sector pe_size of
        Inl e \<Rightarrow> Inl e
      | Inr pe_sectors \<Rightarrow>
          if pe_size = 0 then Inl DivisionByZero
          else
            let pe_count = device_size div pe_size - 1;
                pe_newpos = pe_count * pe_size
            in if \<not> pe_size \<ge> 4096 then Inl (AssertionFailed ''pe_size >= 4096'')
               else Inr (pe_sectors, pe_count, pe_newpos))"

text \<open>The two tables of lines 489 and 497 to 499, and the names of the devices.\<close>

definition rozeros_table :: "u64 \<Rightarrow> u64 \<Rightarrow> error + dm_table" where
  "rozeros_table device_size pe_size =
     (case bytes_to_sector (device_size - pe_size) of
        Inl e \<Rightarrow> Inl e
      | Inr rz_sectors \<Rightarrow> Inr [(0, rz_sectors, Error_target)])"

definition synth_table :: "string \<Rightarrow> string \<Rightarrow> u64 \<Rightarrow> u64 \<Rightarrow> error + dm_table" where
  "synth_table dev rozeros_name device_size pe_size =
     (case bytes_to_sector pe_size of
        Inl e \<Rightarrow> Inl e
      | Inr pe_sectors \<Rightarrow>
          (case bytes_to_sector (device_size - pe_size) of
             Inl e \<Rightarrow> Inl e
           | Inr rz_sectors \<Rightarrow>
               Inr [(0, pe_sectors, Linear dev 0),
                    (pe_sectors, rz_sectors, Linear (''/dev/mapper/'' @ rozeros_name) 0)]))"

text \<open>
  The \<open>devices.filter\<close> of line 575: LVM takes the first pattern that matches a path,
  \<open>a\<close> to accept and \<open>r\<close> to reject.
\<close>

datatype filter_rule = Accept_exactly string | Reject_all

fun render_rule :: "filter_rule \<Rightarrow> string" where
  "render_rule (Accept_exactly path) = [CHR 0x22] @ ''a|^'' @ path @ ''$|'' @ [CHR 0x22]"
| "render_rule Reject_all = [CHR 0x22] @ ''r|.*|'' @ [CHR 0x22]"

fun render_rules :: "filter_rule list \<Rightarrow> string" where
  "render_rules [] = []"
| "render_rules [r] = render_rule r"
| "render_rules (r # rs) = render_rule r @ '','' @ render_rules rs"

fun filter_accepts :: "filter_rule list \<Rightarrow> string \<Rightarrow> bool" where
  "filter_accepts [] path = True"
| "filter_accepts (Accept_exactly p # rest) path =
     (if path = p then True else filter_accepts rest path)"
| "filter_accepts (Reject_all # rest) path = False"

definition devices_filter :: "string \<Rightarrow> filter_rule list" where
  "devices_filter synth_full_name = [Accept_exactly synth_full_name, Reject_all]"

definition lvm_config :: "string \<Rightarrow> string" where
  "lvm_config synth_full_name =
     ''devices{filter=['' @ render_rules (devices_filter synth_full_name) @
     '']}activation{verify_udev_operations=1}''"

text \<open>The metadata text of lines 528 to 572.\<close>

definition vg_config_text ::
  "string \<Rightarrow> string \<Rightarrow> u64 \<Rightarrow> string \<Rightarrow> u64 \<Rightarrow> u64 \<Rightarrow> u64 \<Rightarrow> string \<Rightarrow> string \<Rightarrow> string" where
  "vg_config_text vg vg_uuid pe_sectors pv_uuid pe_count ba_start ba_size lv lv_uuid =
     (let nl = [CHR 0x0A]; q = [CHR 0x22]
      in concat
        [''contents = '', q, ''Text Format Volume Group'', q, nl,
         ''version = 1'', nl, nl,
         vg, '' {'', nl,
         ''    id = '', q, vg_uuid, q, nl,
         ''    seqno = 0'', nl,
         ''    status = ['', q, ''RESIZEABLE'', q, '', '', q, ''READ'', q, '', '', q,
             ''WRITE'', q, '']'', nl,
         ''    extent_size = '', to_string (unat pe_sectors), nl,
         ''    max_lv = 0'', nl,
         ''    max_pv = 0'', nl, nl,
         ''    physical_volumes {'', nl,
         ''        pv0 {'', nl,
         ''            id = '', q, pv_uuid, q, nl,
         ''            status = ['', q, ''ALLOCATABLE'', q, '']'', nl, nl,
         ''            pe_start = '', to_string (unat pe_sectors), nl,
         ''            pe_count = '', to_string (unat pe_count), nl,
         ''            ba_start = '', to_string (unat ba_start), nl,
         ''            ba_size = '', to_string (unat ba_size), nl,
         ''        }'', nl,
         ''    }'', nl,
         ''    logical_volumes {'', nl,
         ''        '', lv, '' {'', nl,
         ''            id = '', q, lv_uuid, q, nl,
         ''            status = ['', q, ''READ'', q, '', '', q, ''WRITE'', q, '', '', q,
             ''VISIBLE'', q, '']'', nl,
         ''            segment_count = 2'', nl, nl,
         ''            segment1 {'', nl,
         ''                start_extent = 0'', nl,
         ''                extent_count = 1'', nl,
         ''                type = '', q, ''striped'', q, nl,
         ''                stripe_count = 1 # linear'', nl,
         ''                stripes = ['', nl,
         ''                    '', q, ''pv0'', q, '', '', to_string (unat (pe_count - 1)), nl,
         ''                ]'', nl,
         ''            }'', nl,
         ''            segment2 {'', nl,
         ''                start_extent = 1'', nl,
         ''                extent_count = '', to_string (unat (pe_count - 1)), nl,
         ''                type = '', q, ''striped'', q, nl,
         ''                stripe_count = 1 # linear'', nl,
         ''                stripes = ['', nl,
         ''                    '', q, ''pv0'', q, '', 0'', nl,
         ''                ]'', nl,
         ''            }'', nl,
         ''        }'', nl,
         ''    }'', nl,
         ''}'', nl])"

text \<open>
  The removal of stale \<open>rozeros\<close> and \<open>synthetic\<close> devices: one \<open>system\<close> call each,
  whose failure is only reported.
\<close>

definition remove_stale :: "string list \<Rightarrow> unit io" where
  "remove_stale devs =
     (map (\<lambda>dev. System_call (''dmsetup remove '' @ dev @ '' 2>/dev/null'')) devs, Inr ())"

text \<open>
  \<open>cmd_to_lvm\<close> from line 328 on, in four parts, defined last part first: the
  preparation up to the assertion on the extent size, which fixes the local variables
  gathered in \<open>lvm_plan\<close>; the check and the shrinking of the stack; the copy of the first
  extent with the making of the metadata on the synthetic device; and the installation.
\<close>

record lvm_plan =
  plan_vgname :: string
  plan_join_name :: string
  plan_lvname :: string
  plan_device_size :: u64
  plan_pe_size :: u64
  plan_pe_sectors :: u64
  plan_pe_count :: u64
  plan_pe_newpos :: u64
  plan_block_stack :: "layer list"

definition to_lvm_install ::
  "lvm_env \<Rightarrow> command_args \<Rightarrow> lvm_plan \<Rightarrow> string \<Rightarrow> string \<Rightarrow> string \<Rightarrow> int io" where
  "to_lvm_install env args plan synth_name rozeros_name synth_full_name =
     bnd (emit (Open_rdonly synth_full_name)) (\<lambda>_.
     bnd (check (open_synth_ok env)
            (RuntimeError ''Failed to open synthetic device for metadata read'')) (\<lambda>_.
     bnd (emit (Pread synth_full_name (plan_pe_size plan) 0)) (\<lambda>_.
     bnd (check (pread_synth_ok env)
            (RuntimeError ''Failed to read metadata from synthetic device'')) (\<lambda>_.
     bnd (quiet_call env [''dmsetup'', ''remove'', synth_name] []) (\<lambda>_.
     bnd (quiet_call env [''dmsetup'', ''remove'', rozeros_name] []) (\<lambda>_.
     bnd (emit (Open_excl (device args))) (\<lambda>_.
     bnd (check (open_excl_install_ok env)
            (RuntimeError ''Failed to reopen physical device for metadata copy'')) (\<lambda>_.
     bnd (emit (Pwrite (device args) (plan_pe_size plan) 0)) (\<lambda>_.
     bnd (check (pwrite_install_ok env)
            (RuntimeError ''Failed to write metadata to physical device'')) (\<lambda>_.
     bnd (rethrow_as (quiet_call env [''vgchange'', ''-ay'', ''--'', plan_vgname plan] [])
            (RuntimeError ''Volume group activation failed'')) (\<lambda>_.
     bnd (if join args \<noteq> []
          then quiet_call env
                 [''lvm'', ''vgmerge'', ''--'', plan_join_name plan, plan_vgname plan] []
          else ret ()) (\<lambda>_.
     bnd (emit (Remove_file (cfgf_path env))) (\<lambda>_.
     ret 0)))))))))))))"

definition to_lvm_metadata :: "lvm_env \<Rightarrow> command_args \<Rightarrow> lvm_plan \<Rightarrow> int io" where
  "to_lvm_metadata env args plan =
     bnd (emit (Open_excl (device args))) (\<lambda>_.
     bnd (check (open_excl_copy_ok env)
            (RuntimeError ''Failed to open physical device'')) (\<lambda>_.
     bnd (emit (Pread (device args) (plan_pe_size plan) 0)) (\<lambda>_.
     bnd (check (pread_copy_ok env)
            (AssertionFailed ''read_len == static_cast<ssize_t>(pe_size)'')) (\<lambda>_.
     bnd (emit (Pwrite (device args) (plan_pe_size plan) (plan_pe_newpos plan))) (\<lambda>_.
     bnd (check (pwrite_copy_ok env)
            (AssertionFailed ''wr_len == static_cast<ssize_t>(pe_size)'')) (\<lambda>_.
     bnd (remove_stale (stale_dm_devices env)) (\<lambda>_.
     let uuid_str = uuid_generate env 1;
         rozeros_name = ''rozeros-'' @ uuid_str;
         synth_name = ''synthetic-'' @ uuid_str;
         synth_full_name = ''/dev/mapper/'' @ synth_name
     in
     bnd (lift (rozeros_table (plan_device_size plan) (plan_pe_size plan))) (\<lambda>rozeros.
     bnd (quiet_call env [''dmsetup'', ''create'', ''--readonly'', ''--'', rozeros_name]
            (render_table rozeros)) (\<lambda>_.
     bnd (lift (synth_table (device args) rozeros_name (plan_device_size plan)
                  (plan_pe_size plan))) (\<lambda>synth.
     bnd (quiet_call env [''dmsetup'', ''create'', ''--'', synth_name]
            (render_table synth)) (\<lambda>_.
     bnd (check (synth_exists env) (RuntimeError ''Synthetic device creation failed'')) (\<lambda>_.
     let pv_uuid = uuid_generate env 2;
         vg_uuid = uuid_generate env 3;
         lv_uuid = uuid_generate env 4;
         lvm_cfg = ''--config='' @ [CHR 0x27] @ lvm_config synth_full_name @ [CHR 0x27]
     in
     bnd (emit (Write_file (cfgf_path env)
            (vg_config_text (plan_vgname plan) vg_uuid (plan_pe_sectors plan) pv_uuid
               (plan_pe_count plan) 2048 2048 (plan_lvname plan) lv_uuid))) (\<lambda>_.
     bnd (quiet_call env
            [''lvm'', ''pvcreate'', lvm_cfg, ''--restorefile'', cfgf_path env,
             ''--uuid'', pv_uuid, ''--zero'', ''y'', ''--'', synth_full_name] []) (\<lambda>_.
     bnd (quiet_call env
            [''lvm'', ''vgcfgrestore'', lvm_cfg, ''--file'', cfgf_path env, ''--'',
             plan_vgname plan] []) (\<lambda>_.
     to_lvm_install env args plan synth_name rozeros_name synth_full_name)))))))))))))))"

definition to_lvm_prepare :: "lvm_env \<Rightarrow> command_args \<Rightarrow> lvm_plan io" where
  "to_lvm_prepare env args =
     bnd (check (which_lvm env) (bail CLIProgressHandler MissingRequirement)) (\<lambda>_.
     bnd (lift (choose_vg env args)) (\<lambda>(vg, pe_size, join_name).
     bnd (check (vg \<noteq> []) (AssertionFailed ''!vgname.empty()'')) (\<lambda>_.
     bnd (check (whitelisted vg) (AssertionFailed ''ASCII_ALNUM_WHITELIST.find(c) != npos'')) (\<lambda>_.
     bnd (lift (case blockdev_getsize64 env of
                  None \<Rightarrow> Inl (InvalidArgument ''stoull'')
                | Some sz \<Rightarrow> Inr sz)) (\<lambda>device_size.
     bnd (check (device_size mod 512 = 0) (AssertionFailed ''device.size() % 512 == 0'')) (\<lambda>_.
     bnd (get_block_stack env) (\<lambda>block_stack.
     let lv = choose_lvname env args in
     bnd (lift (lvm_geometry device_size pe_size)) (\<lambda>(pe_sectors, pe_count, pe_newpos).
     ret \<lparr>plan_vgname = vg, plan_join_name = join_name, plan_lvname = lv,
          plan_device_size = device_size, plan_pe_size = pe_size,
          plan_pe_sectors = pe_sectors, plan_pe_count = pe_count,
          plan_pe_newpos = pe_newpos, plan_block_stack = block_stack\<rparr>))))))))"

definition to_lvm_convert :: "lvm_env \<Rightarrow> command_args \<Rightarrow> int io" where
  "to_lvm_convert env args =
     bnd (to_lvm_prepare env args) (\<lambda>plan.
     bnd (lift (read_superblocks env (plan_block_stack plan))) (\<lambda>block_stack.
     bnd (rethrow_as (quiet_call env [''e2fsck'', ''-f'', ''-y'', ''--'', device args] [])
            (RuntimeError (''Filesystem check failed, please repair manually with 'e2fsck -f ''
                           @ device args @ [CHR 0x27]))) (\<lambda>_.
     bnd (layer_run (stack_reserve_end_area (layer_tools env) CLIProgressHandler
                       block_stack (plan_pe_newpos plan))) (\<lambda>block_stack.
     bnd (emit Stack_deactivate) (\<lambda>_.
     bnd (lift (case deactivate env block_stack of
                  Some e \<Rightarrow> Inl e
                | None \<Rightarrow> Inr ())) (\<lambda>_.
     to_lvm_metadata env args plan))))))"

text \<open>
  \<open>cmd_to_lvm\<close>: the device object is made, a device that already is a physical volume
  has its LVM label removed with \<open>pvremove -ff\<close>, and the conversion follows.
\<close>

definition pvremove_cmd :: "command_args \<Rightarrow> string list" where
  "pvremove_cmd args = [''pvremove'', ''-ff'', ''--'', device args]"

definition cmd_to_lvm :: "lvm_env \<Rightarrow> command_args \<Rightarrow> int io" where
  "cmd_to_lvm env args =
     bnd (check (device_exists env) (AssertionFailed ''std::filesystem::exists(devpath)'')) (\<lambda>_.
     bnd (if superblock_type env = ''LVM2_member''
          then quiet_call env (pvremove_cmd args) []
          else ret ()) (\<lambda>_.
     to_lvm_convert env args))"

text \<open>
  An example run: \<open>to-lvm --vg-name vg1 /dev/sdb1\<close> on a device of 100 MiB that holds an
  ext4 labelled \<open>root\<close>, with every tool succeeding.
\<close>

definition ext4_100M :: filesystem where
  "ext4_100M = \<lparr>fs_class = ExtFS, block_size = 4096, block_count = 25600, size_bytes = 0,
                 sb_size_in_bytes = False\<rparr>"

definition example_uuid :: "nat \<Rightarrow> string" where
  "example_uuid k =
     [''0b0e8b1c-5a52-4c1e-9d4e-2f6a3c7d1e00'', ''7d9c2a44-1f3b-4e0a-8c55-90ab12cd34ef'',
      ''3f2504e0-4f89-41d3-9a0c-0305e82c3301'', ''6ba7b810-9dad-41d1-80b4-00c04fd430c8'',
      ''9a3d5c1e-7b2f-4a6d-b8e1-5c4f3a2b1d0e''] ! (k mod 5)"

definition lvm_env_example :: lvm_env where
  "lvm_env_example =
     \<lparr>device_exists = True, superblock_type = ''ext4'', cmd_ok = (\<lambda>cmd. True),
      which_lvm = True, vgs_join_name = [], vgs_pe_size = None,
      uuid_generate = example_uuid, blockdev_getsize64 = Some 104857600,
      get_block_stack = ([], Inr [FS_layer ext4_100M]),
      stack_fslabel = ''root'', stack_fsuuid = ''u1'',
      read_superblocks = Inr, layer_tools = tools_succeed, deactivate = (\<lambda>st. None),
      open_excl_copy_ok = True, pread_copy_ok = True, pwrite_copy_ok = True,
      stale_dm_devices = [], synth_exists = True, cfgf_path = ''/tmp/vgcfg_4242.vgcfg'',
      open_synth_ok = True, pread_synth_ok = True, open_excl_install_ok = True,
      pwrite_install_ok = True\<rparr>"

definition args_example :: command_args where
  "args_example =
     \<lparr>command = ''to-lvm'', device = ''/dev/sdb1'', vgname = ''vg1'', join = [],
      debug = False, maintboot = False, resize_device = False, newsize = 0\<rparr>"

text \<open>The same run on a device whose superblock type is \<open>sb\<close> and whose size is \<open>sz\<close>.\<close>

definition lvm_env_with :: "string \<Rightarrow> u64 \<Rightarrow> lvm_env" where
  "lvm_env_with sb sz = lvm_env_example\<lparr>superblock_type := sb, blockdev_getsize64 := Some sz\<rparr>"

section \<open>to-bcache (main.cpp, bcache\_operations.cpp)\<close>

text \<open>
  What the command learns from the system: the device a path names, if any, with what its
  probes see; whether \<open>which make-bcache\<close> succeeds; whether the device is a partition, a
  logical volume, and its superblock type. The conversions themselves and the maintenance
  boot are runs of their own, given by the device path, \<open>debug\<close> and \<open>join\<close>. The probes of
  a \<open>BlockDevice\<close> only read, and make no event.
\<close>

record bcache_env =
  find_device :: "string \<Rightarrow> block_device option"
  which_make_bcache :: bool
  is_partition :: "string \<Rightarrow> bool"
  is_lv :: "string \<Rightarrow> bool"
  superblock_type_of :: "string \<Rightarrow> string"
  call_maintboot :: "string \<Rightarrow> bool \<Rightarrow> string \<Rightarrow> int io"
  part_to_bcache :: "string \<Rightarrow> bool \<Rightarrow> string \<Rightarrow> int io"
  lv_to_bcache :: "string \<Rightarrow> bool \<Rightarrow> string \<Rightarrow> int io"
  luks_to_bcache :: "string \<Rightarrow> bool \<Rightarrow> string \<Rightarrow> int io"

text \<open>The constructor of \<open>BlockDevice\<close> asserts that the path exists.\<close>

definition BlockDevice :: "bcache_env \<Rightarrow> string \<Rightarrow> block_device io" where
  "BlockDevice env path =
     (case find_device env path of
        None \<Rightarrow> fail (AssertionFailed ''std::filesystem::exists(devpath)'')
      | Some d \<Rightarrow> ret d)"

text \<open>
  The branch of \<open>main\<close> for \<open>to-bcache\<close> (lines 182 to 219); \<open>rest\<close> is \<open>argv\<close> from
  \<open>optind\<close> on, after the command.
\<close>

definition main_to_bcache :: "bcache_env \<Rightarrow> command_args \<Rightarrow> string list \<Rightarrow> int io" where
  "main_to_bcache env args rest =
     (case rest of
        [] \<Rightarrow> ret 1
      | dev # _ \<Rightarrow>
          bnd (BlockDevice env dev) (\<lambda>d.
          bnd (lift (has_bcache_superblock d)) (\<lambda>has.
          if has then ret 1
          else
            bnd (check (which_make_bcache env)
                   (bail CLIProgressHandler MissingRequirement)) (\<lambda>_.
            if maintboot args then call_maintboot env dev (debug args) (join args)
            else if is_partition env dev then part_to_bcache env dev (debug args) (join args)
            else if is_lv env dev then lv_to_bcache env dev (debug args) (join args)
            else if superblock_type_of env dev = ''crypto_LUKS''
              then luks_to_bcache env dev (debug args) (join args)
            else ret 1))))"

text \<open>
  \<open>cmd_to_bcache\<close> (bcache\_operations.cpp, lines 261 to 314) parses \<open>argv\<close> itself.
  The loop starts after \<open>argv[0]\<close>; \<open>--join\<close> takes the next argument when there is
  one; an argument that does not start with \<open>-\<close> is the device, the last one winning
  (\<open>arg[0]\<close> of an empty string is the terminating zero).
\<close>

record to_bcache_options =
  device_path :: string
  debug_option :: bool
  join_option :: string
  maintboot_option :: bool

fun parse_arguments :: "string list \<Rightarrow> to_bcache_options \<Rightarrow> to_bcache_options" where
  "parse_arguments [] opts = opts"
| "parse_arguments [arg] opts =
     (if arg = ''--debug'' then opts\<lparr>debug_option := True\<rparr>
      else if arg = ''--maintboot'' then opts\<lparr>maintboot_option := True\<rparr>
      else if arg = [] \<or> hd arg \<noteq> CHR ''-'' then opts\<lparr>device_path := arg\<rparr>
      else opts)"
| "parse_arguments (arg # next_arg # rest) opts =
     (if arg = ''--debug'' then parse_arguments (next_arg # rest) (opts\<lparr>debug_option := True\<rparr>)
      else if arg = ''--join'' then parse_arguments rest (opts\<lparr>join_option := next_arg\<rparr>)
      else if arg = ''--maintboot''
        then parse_arguments (next_arg # rest) (opts\<lparr>maintboot_option := True\<rparr>)
      else if arg = [] \<or> hd arg \<noteq> CHR ''-''
        then parse_arguments (next_arg # rest) (opts\<lparr>device_path := arg\<rparr>)
      else parse_arguments (next_arg # rest) opts)"

definition cmd_to_bcache :: "bcache_env \<Rightarrow> string list \<Rightarrow> int io" where
  "cmd_to_bcache env argv =
     (if length argv < 2 then ret 1
      else
        let opts = parse_arguments (tl argv)
                     \<lparr>device_path = [], debug_option = False, join_option = [],
                      maintboot_option = False\<rparr>;
            dev = device_path opts
        in if dev = [] then ret 1
           else
             bnd (BlockDevice env dev) (\<lambda>d.
             bnd (lift (has_bcache_superblock d)) (\<lambda>has.
             if has then ret 1
             else
               bnd (check (which_make_bcache env)
                      (bail CLIProgressHandler MissingRequirement)) (\<lambda>_.
               if is_partition env dev
                 then part_to_bcache env dev (debug_option opts) (join_option opts)
               else if is_lv env dev
                 then lv_to_bcache env dev (debug_option opts) (join_option opts)
               else if superblock_type_of env dev = ''crypto_LUKS''
                 then luks_to_bcache env dev (debug_option opts) (join_option opts)
               else ret 1))))"

text \<open>
  An example: \<open>/dev/sdb1\<close> is a partition of 16 KiB that carries the bcache magic, and
  every conversion, were it run, would write to its device.
\<close>

definition bcache_dev_example :: block_device where
  "bcache_dev_example =
     \<lparr>devpath = ''/dev/sdb1'', getsize64 = Some 16384, ro_openable = True,
      content = replicate 4120 0 @ BCACHE_MAGIC @ replicate 12248 0\<rparr>"

definition bcache_env_example :: bcache_env where
  "bcache_env_example =
     \<lparr>find_device = (\<lambda>path. if path = ''/dev/sdb1'' then Some bcache_dev_example else None),
      which_make_bcache = True,
      is_partition = (\<lambda>path. True), is_lv = (\<lambda>path. False),
      superblock_type_of = (\<lambda>path. []),
      call_maintboot = (\<lambda>path dbg jn. ([System_call ''kexec''], Inr 0)),
      part_to_bcache = (\<lambda>path dbg jn. ([Pwrite path 8192 0], Inr 0)),
      lv_to_bcache = (\<lambda>path dbg jn. ([Pwrite path 8192 0], Inr 0)),
      luks_to_bcache = (\<lambda>path dbg jn. ([Pwrite path 8192 0], Inr 0))\<rparr>"

section \<open>Augeas and rotate\_aug (lvm\_operations.cpp)\<close>

text \<open>
  The class \<open>Augeas\<close> of the source has no data member and every method is a stub:
  \<open>get_int\<close> returns 0, \<open>get\<close> returns the empty string, and the methods that would
  edit the tree do nothing. An object therefore has one value, and a method that returns
  \<open>void\<close> returns the object.
\<close>

datatype augeas = Augeas

definition get_int :: "augeas \<Rightarrow> string \<Rightarrow> int" where
  "get_int aug key = 0"

definition set_int :: "augeas \<Rightarrow> string \<Rightarrow> int \<Rightarrow> augeas" where
  "set_int aug key val = aug"

definition incr :: "augeas \<Rightarrow> string \<Rightarrow> int \<Rightarrow> augeas" where
  "incr aug key by = (let val = get_int aug key in set_int aug key (val + by))"

definition decr :: "augeas \<Rightarrow> string \<Rightarrow> augeas" where
  "decr aug key = incr aug key (- 1)"

definition get_str :: "augeas \<Rightarrow> string \<Rightarrow> string" where
  "get_str aug key = []"

definition set_str :: "augeas \<Rightarrow> string \<Rightarrow> string \<Rightarrow> augeas" where
  "set_str aug key val = aug"

definition defvar :: "augeas \<Rightarrow> string \<Rightarrow> string \<Rightarrow> augeas" where
  "defvar aug name expr = aug"

definition insert_node :: "augeas \<Rightarrow> string \<Rightarrow> string \<Rightarrow> bool \<Rightarrow> augeas" where
  "insert_node aug path label before = aug"

definition remove_node :: "augeas \<Rightarrow> string \<Rightarrow> augeas" where
  "remove_node aug path = aug"

definition rename_node :: "augeas \<Rightarrow> string \<Rightarrow> string \<Rightarrow> augeas" where
  "rename_node aug src dst = aug"

text \<open>\<open>std::to_string\<close> of an \<open>int\<close>, and the path of segment \<open>i\<close>.\<close>

definition to_string_int :: "int \<Rightarrow> string" where
  "to_string_int i = (if i < 0 then ''-'' @ to_string (nat (- i)) else to_string (nat i))"

definition segment :: "int \<Rightarrow> string" where
  "segment i = ''$lv/segment'' @ to_string_int i"

text \<open>An \<open>int\<close> has 32 bits; a sum or product outside its range is undefined.\<close>

definition int_result :: "int \<Rightarrow> error + int" where
  "int_result v =
     (if - 2147483648 \<le> v \<and> v \<le> 2147483647 then Inr v
      else Inl (UndefinedBehaviour ''signed integer overflow''))"

text \<open>The loop that checks that all segments are linear and adds up their extents.\<close>

fun check_segments :: "augeas \<Rightarrow> int list \<Rightarrow> int \<Rightarrow> error + int" where
  "check_segments aug [] extent_total = Inr extent_total"
| "check_segments aug (i # rest) extent_total =
     (if get_str aug (segment i @ ''/dict/type/str'') \<noteq> ''striped''
      then Inl (AssertionFailed ''aug.get(segment type) == striped'')
      else if get_int aug (segment i @ ''/dict/stripe_count'') \<noteq> 1
      then Inl (AssertionFailed ''aug.get_int(stripe_count) == 1'')
      else (case int_result (extent_total + get_int aug (segment i @ ''/dict/extent_count'')) of
              Inl e \<Rightarrow> Inl e
            | Inr extent_total' \<Rightarrow> check_segments aug rest extent_total'))"

text \<open>The two branches of \<open>rotate_aug\<close>, after the assertions.\<close>

definition rotate_forward :: "augeas \<Rightarrow> int \<Rightarrow> int \<Rightarrow> augeas" where
  "rotate_forward aug0 segment_count extent_total =
     (let aug = defvar aug0 ''first'' ''$lv/segment1/dict'';
          aug = fold (\<lambda>i a. decr a (segment i @ ''/dict/start_extent'')) [2..segment_count] aug;
          aug = decr aug ''$first/extent_count'';
          aug = insert_node aug (segment segment_count)
                  (''segment'' @ to_string_int (segment_count + 1)) False;
          aug = set_int aug (segment (segment_count + 1) @ ''/dict/start_extent'')
                  (extent_total - 1);
          aug = defvar aug ''last'' (segment (segment_count + 1) @ ''/dict'');
          aug = set_int aug ''$last/extent_count'' 1;
          aug = set_str aug ''$last/type/str'' ''striped'';
          aug = set_int aug ''$last/stripe_count'' 1;
          aug = set_str aug ''$last/stripes/list/1/str'' (get_str aug ''$first/stripes/list/1/str'');
          aug = set_int aug ''$last/stripes/list/2'' (get_int aug ''$first/stripes/list/2'');
          aug = incr aug ''$first/stripes/list/2'' 1
      in if get_int aug ''$first/extent_count'' = 0
         then
           let aug = remove_node aug ''$lv/segment1'';
               aug = fold (\<lambda>i a. rename_node a (segment i) (''segment'' @ to_string_int (i - 1)))
                       [2..segment_count + 1] aug
           in decr aug ''$lv/segment_count''
         else aug)"

definition rotate_backward :: "augeas \<Rightarrow> int \<Rightarrow> augeas" where
  "rotate_backward aug0 segment_count =
     (let aug = fold (\<lambda>i a. rename_node (incr a (segment i @ ''/dict/start_extent'') 1)
                               (segment i) (''segment'' @ to_string_int (i + 1)))
                  (rev [1..segment_count]) aug0;
          aug = defvar aug ''last'' (segment (segment_count + 1) @ ''/dict'');
          aug = decr aug ''$last/extent_count'';
          last_count = get_int aug ''$last/extent_count'';
          aug = insert_node aug ''$lv/segment2'' ''segment1'' True;
          aug = set_int aug ''$lv/segment1/dict/start_extent'' 0;
          aug = defvar aug ''first'' ''$lv/segment1/dict'';
          aug = set_int aug ''$first/extent_count'' 1;
          aug = set_str aug ''$first/type/str'' ''striped'';
          aug = set_int aug ''$first/stripe_count'' 1;
          aug = set_str aug ''$first/stripes/list/1/str'' (get_str aug ''$last/stripes/list/1/str'');
          aug = set_int aug ''$first/stripes/list/2''
                  (get_int aug ''$last/stripes/list/2'' + last_count)
      in if last_count = 0
         then decr (remove_node aug (segment (segment_count + 1))) ''$lv/segment_count''
         else aug)"

definition rotate_aug :: "augeas \<Rightarrow> bool \<Rightarrow> u64 \<Rightarrow> error + augeas" where
  "rotate_aug aug0 forward lv_size =
     (let segment_count = get_int aug0 ''$lv/segment_count'';
          pe_sectors = get_int aug0 ''$vg/extent_size'';
          aug = incr aug0 ''$lv/segment_count'' 1
      in case check_segments aug [1..segment_count] 0 of
           Inl e \<Rightarrow> Inl e
         | Inr extent_total \<Rightarrow>
             (case int_result (extent_total * pe_sectors) of
                Inl e \<Rightarrow> Inl e
              | Inr product \<Rightarrow>
                  (case bytes_to_sector lv_size of
                     Inl e \<Rightarrow> Inl e
                   | Inr sectors \<Rightarrow>
                       if (word_of_int product :: u64) \<noteq> sectors
                       then Inl (AssertionFailed
                              ''extent_total * pe_sectors == bytes_to_sector(size)'')
                       else if \<not> extent_total > 1
                       then Inl (AssertionFailed ''extent_total > 1'')
                       else if forward then Inr (rotate_forward aug segment_count extent_total)
                       else Inr (rotate_backward aug segment_count))))"

text \<open>
  The part of \<open>rotate_lv\<close> that edits the metadata (lines 264 to 276): the rotation, the
  file \<open>vg.cfg.new\<close>, the rotation back and the file \<open>vg.cfg.backagain\<close>. The two files
  get fixed lines of text, not a configuration.
\<close>

definition rotate_lv_edit :: "augeas \<Rightarrow> string \<Rightarrow> bool \<Rightarrow> u64 \<Rightarrow> augeas io" where
  "rotate_lv_edit aug vgcfgname forward lv_size =
     bnd (lift (rotate_aug aug forward lv_size)) (\<lambda>aug.
     bnd (emit (Write_file (vgcfgname @ ''.new'')
                  (''Simulated modified configuration'' @ [CHR 0x0A]))) (\<lambda>_.
     bnd (lift (rotate_aug aug (\<not> forward) lv_size)) (\<lambda>aug.
     bnd (emit (Write_file (vgcfgname @ ''.backagain'')
                  (''Simulated reverted configuration'' @ [CHR 0x0A]))) (\<lambda>_.
     ret aug))))"

(* ---- properties ---- *)

section \<open>Detection of a bcache superblock\<close>

lemma length_BCACHE_MAGIC: "length BCACHE_MAGIC = 16"
  by (simp add: BCACHE_MAGIC_def)

text \<open>
  Claim C8. \<open>has_bcache_superblock\<close> returns true exactly when the size of the device is
  strictly greater than 8192 bytes and the 16 bytes read at offset 4120 are the bcache
  magic \<open>c6 85 73 f6 4e 1a 45 ca 82 65 f5 7f 48 ba 6d 81\<close>.
\<close>

theorem has_bcache_superblock_iff:
  "has_bcache_superblock d = Inr True \<longleftrightarrow>
     (\<exists>sz. size_dev d = Inr sz \<and> 8192 < sz) \<and>
     ro_openable d \<and>
     pread (content d) 16 4120 = Some BCACHE_MAGIC"
proof (cases "size_dev d")
  case (Inl e)
  then show ?thesis by (simp add: has_bcache_superblock_def)
next
  case (Inr sz)
  show ?thesis
  proof (cases "sz \<le> 8192")
    case True
    with Inr show ?thesis by (simp add: has_bcache_superblock_def not_less)
  next
    case False
    define m where "m = take 16 (drop 4120 (content d))"
    have rd: "pread (content d) 16 (4096 + 24) = Some m" "pread (content d) 16 4120 = Some m"
      by (simp_all add: pread_def m_def)
    have len: "m = BCACHE_MAGIC \<Longrightarrow> length m = 16"
      using length_BCACHE_MAGIC by simp
    have "has_bcache_superblock d = Inr True \<longleftrightarrow>
            ro_openable d \<and> length m = 16 \<and> m = BCACHE_MAGIC"
      using Inr False unfolding has_bcache_superblock_def rd by simp
    with Inr False len show ?thesis
      unfolding rd by (auto simp: not_le)
  qed
qed

theorem has_bcache_superblock_iff_witness:
  "has_bcache_superblock
     \<lparr>devpath = ''/dev/sdb1'', getsize64 = Some 16384, ro_openable = True,
      content = replicate 4120 0 @ BCACHE_MAGIC @ replicate 12248 0\<rparr> = Inr True"
  using length_BCACHE_MAGIC
  by (simp add: has_bcache_superblock_iff size_dev_def pread_def)

section \<open>Words and big-endian fields\<close>

lemma unat_u32_lt: "unat (x :: u32) < 4294967296"
  using unsigned_less [of x, where ?'a = nat] by simp

lemma unat_ucast_32_64: "unat (ucast (x :: u32) :: u64) = unat x"
proof -
  have "unat x < 2 ^ 64" using unat_u32_lt [of x] by simp
  then show ?thesis by (simp add: unsigned_ucast_eq take_bit_nat_eq_self_iff)
qed
  

lemma ucast_mul512_mod:
  fixes s :: u32
  shows "(ucast (s * 512) :: u64) mod 512 = 0"
proof -
  have "unat ((ucast (s * 512) :: u64) mod 512) = ((unat s * 512) mod 2 ^ 32) mod 512"
    by (simp add: unat_mod unat_ucast_32_64 unat_word_ariths)
  also have "\<dots> = (unat s * 512) mod 512"
    by (rule mod_mod_cancel) simp
  also have "\<dots> = 0" by simp
  finally show ?thesis by (simp add: unat_eq_zero)
qed

lemma ucast_u32_lt:
  fixes s :: u32
  shows "(ucast s :: u64) < 2 ^ 32"
  using unat_u32_lt [of s] by (simp add: word_less_nat_alt unat_ucast_32_64)

lemma be32_roundtrip: "be32_decode (be32_encode w) = w"
  unfolding be32_decode_def be32_encode_def
  apply simp
  apply (rule bit_word_eqI)
  subgoal for n
    apply (cases "n < 8"; cases "n < 16"; cases "n < 24")
    apply (auto simp: bit_simps not_less)
    done
  done

lemma be32_decode_append: "length xs = 4 \<Longrightarrow> be32_decode (xs @ ys) = be32_decode xs"
  by (simp add: be32_decode_def nth_append)

lemma length_be32_encode: "length (be32_encode w) = 4"
  by (simp add: be32_encode_def)

section \<open>The LUKS header after \<open>read_superblock_ll\<close>\<close>

lemma key_slots_ge: "key_slots fd kb ks acc = Inr r \<Longrightarrow> acc \<le> r"
proof (induction ks arbitrary: acc)
  case Nil
  then show ?case by simp
next
  case (Cons k ks)
  from Cons.prems obtain acc' where "key_slots fd kb ks acc' = Inr r" "acc \<le> acc'"
    by (auto split: option.splits if_splits simp: Let_def)
  with Cons.IH show ?case by (meson order_trans)
qed

lemma key_slots_reads:
  "key_slots fd kb (ks @ [k]) acc = Inr r \<Longrightarrow> 208 + 48 * k + 48 \<le> length fd"
proof (induction ks arbitrary: acc)
  case Nil
  then show ?case
    by (auto split: option.splits if_splits simp: Let_def pread_def)
next
  case (Cons k ks)
  then show ?case 
    by (auto split: option.splits if_splits simp: Let_def)
qed

lemma read_superblock_ll_post:
  assumes "read_superblock_ll l0 fd = Inr l"
  shows "offset l = offset l0" "592 \<le> sb_end l" "sb_end l \<le> offset l" "offset l mod 512 = 0"
    "offset l < 2 ^ 32" "592 \<le> length fd"
proof -
  from assms obtain kb s where
    ks: "key_slots fd kb [0..<8] 592 = Inr (sb_end l)" and
    off: "ucast (s * 512 :: u32) = offset l0" and
    l: "l = l0\<lparr>sb_end := sb_end l\<rparr>" and le: "\<not> offset l0 < sb_end l"
    by (auto simp: read_superblock_ll_def Let_def split: option.splits if_splits sum.splits)
  from l have o: "offset l = offset l0"
    by (metis luks.select_convs(1) luks.surjective luks.update_convs(2))
  show "offset l = offset l0" by fact
  show "592 \<le> sb_end l" using key_slots_ge[OF ks] .
  show "sb_end l \<le> offset l" using le o by simp
  show "offset l mod 512 = 0" using ucast_mul512_mod[of s] off o by simp
  show "offset l < 2 ^ 32" using ucast_u32_lt[of "s * 512"] off o by simp
  have "[0..<8] = [0..<7] @ [7::nat]" by (simp add: upt_rec)
  with ks have "key_slots fd kb ([0..<7] @ [7]) 592 = Inr (sb_end l)" by simp
  from key_slots_reads[OF this] show "592 \<le> length fd" by simp
qed

lemma pread_fields:
  assumes "pread fd 8 (int off) = Some buffer" "length buffer = 8"
  shows "be32_decode (take 4 buffer) = be32_decode (drop off fd)"
    and "be32_decode (drop 4 buffer) = be32_decode (drop (off + 4) fd)"
proof -
  from assms have b: "buffer = take 8 (drop off fd)" and l: "off + 8 \<le> length fd"
    by (auto simp: pread_def)
  show "be32_decode (take 4 buffer) = be32_decode (drop off fd)"
    unfolding b by (simp add: be32_decode_def)
  show "be32_decode (drop 4 buffer) = be32_decode (drop (off + 4) fd)"
    unfolding b using l by (simp add: be32_decode_def add.commute)
qed

lemma pread_slot:
  assumes "pread fd 8 (208 + 48 * int k + 40) = Some buffer" "length buffer = 8"
  shows "be32_decode (take 4 buffer) = luks_key_offset fd k"
    and "be32_decode (drop 4 buffer) = luks_key_stripes fd k"
proof -
  have i: "208 + 48 * int k + 40 = int (208 + 48 * k + 40)" by simp
  note f = pread_fields [OF assms(1) [unfolded i] assms(2)]
  show "be32_decode (take 4 buffer) = luks_key_offset fd k"
    using f(1) by (simp add: luks_key_offset_def)
  show "be32_decode (drop 4 buffer) = luks_key_stripes fd k"
    using f(2) by (simp add: luks_key_stripes_def)
qed

lemma key_slots_Cons:
  assumes "208 + 48 * k + 48 \<le> length fd"
  shows "key_slots fd kb (k # rest) acc =
     (if luks_key_stripes fd k \<noteq> 4000
      then Inl (RuntimeError ''Unexpected LUKS key stripes value'')
      else key_slots fd kb rest
             (max acc ((ucast (luks_key_offset fd k * 512) :: u64) + ucast (4000 * kb))))"
proof -
  have i: "208 + 48 * int k + 40 = int (208 + 48 * k + 40)" by simp
  define buffer where "buffer = take 8 (drop (208 + 48 * k + 40) fd)"
  have rd: "pread fd 8 (208 + 48 * int k + 40) = Some buffer"
    by (simp add: pread_def buffer_def nat_add_distrib nat_mult_distrib)
  have len: "length buffer = 8" using assms by (simp add: buffer_def)
  note f = pread_slot [OF rd len]
  show ?thesis
    unfolding key_slots.simps rd option.case Let_def f
    using len by (auto simp: max_def not_less)
qed

lemma key_slots_result:
  assumes "key_slots fd kb ks acc = Inr r"
  shows "(\<forall>k\<in>set ks. luks_key_stripes fd k = 4000) \<and>
         r = Max (insert acc (key_end fd kb ` set ks))"
  using assms
proof (induction ks arbitrary: acc)
  case Nil
  then show ?case by simp
next
  case (Cons k ks)
  from Cons.prems have len: "208 + 48 * k + 48 \<le> length fd"
    using key_slots_reads [of fd kb "[]" k acc r]
    by (auto simp: pread_def split: option.splits if_splits)
  from Cons.prems have st: "luks_key_stripes fd k = 4000"
    and rec: "key_slots fd kb ks (max acc (key_end fd kb k)) = Inr r"
    unfolding key_slots_Cons [OF len] key_end_def by (auto split: if_splits)
  from Cons.IH [OF rec] have all: "\<forall>k\<in>set ks. luks_key_stripes fd k = 4000"
    and r: "r = Max (insert (max acc (key_end fd kb k)) (key_end fd kb ` set ks))" by auto
  have "Max (insert (max acc (key_end fd kb k)) (key_end fd kb ` set ks))
        = Max (insert acc (key_end fd kb ` set (k # ks)))"
    by (cases "set ks = {}") (simp_all add: max.assoc max.commute max.left_commute)
  with st all r show ?case by simp
qed


lemma read_superblock_ll_fields:
  assumes "read_superblock_ll l0 fd = Inr l"
  shows "key_slots fd (luks_key_bytes fd) [0..<8] 592 = Inr (sb_end l)"
    and "offset l = ucast (luks_payload_start fd * 512)"
proof -
  from assms obtain b2 where rd: "pread fd 8 (int 104) = Some b2" and len: "length b2 = 8"
    and ks: "key_slots fd (be32_decode (drop 4 b2)) [0..<8] 592 = Inr (sb_end l)"
    and off: "ucast (be32_decode (take 4 b2) * 512) = offset l0"
    by (auto simp: read_superblock_ll_def Let_def split: option.splits if_splits sum.splits)
  note f = pread_fields [OF rd len]
  show "key_slots fd (luks_key_bytes fd) [0..<8] 592 = Inr (sb_end l)"
    using ks f(2) by (simp add: luks_key_bytes_def)
  show "offset l = ucast (luks_payload_start fd * 512)"
    using off f(1) read_superblock_ll_post(1) [OF assms] by (simp add: luks_payload_start_def)
qed

lemma unat_ucast_mul:
  fixes a b :: u32
  assumes "unat a * unat b < 2 ^ 32"
  shows "unat (ucast (a * b) :: u64) = unat a * unat b"
  using assms by (simp add: unat_ucast_32_64 unat_word_ariths)

lemma unat_key_end:
  assumes "4000 * unat kb < 2 ^ 32" "unat (luks_key_offset fd k) * 512 < 2 ^ 32"
  shows "unat (key_end fd kb k) = unat (luks_key_offset fd k) * 512 + 4000 * unat kb"
proof -
  have a: "unat (ucast (luks_key_offset fd k * 512) :: u64) = unat (luks_key_offset fd k) * 512"
    using unat_ucast_mul [of "luks_key_offset fd k" 512] assms(2) by simp
  have b: "unat (ucast (4000 * kb) :: u64) = 4000 * unat kb"
    using unat_ucast_mul [of 4000 kb] assms(1) by simp
  show ?thesis
    unfolding key_end_def using assms by (simp add: unat_word_ariths a b)
qed

lemma unat_Max:
  fixes S :: "u64 set"
  assumes "finite S" "S \<noteq> {}"
  shows "unat (Max S) = Max (unat ` S)"
  by (rule mono_Max_commute [OF _ assms]) (simp add: mono_def word_le_nat_alt)

text \<open>
  Claim C6, as amended. When \<open>read_superblock_ll\<close> succeeds and none of the 32-bit
  products overflows, \<open>sb_end\<close> is the maximum of 592 and
  \<open>key_offset * 512 + 4000 * key_bytes\<close> over the eight key slots, every slot has 4000
  stripes, \<open>sb_end \<le> payload_start\<close>, and the payload start is a multiple of 512.
  (Nothing makes \<open>sb_end\<close> a multiple of 512.)
\<close>

theorem read_superblock_ll_sb_end:
  assumes ok: "read_superblock_ll l0 fd = Inr l"
    and kb: "4000 * unat (luks_key_bytes fd) < 2 ^ 32"
    and ko: "\<forall>k<8. unat (luks_key_offset fd k) * 512 < 2 ^ 32"
    and ps: "unat (luks_payload_start fd) * 512 < 2 ^ 32"
  shows "unat (sb_end l) =
           Max (insert 592 ((\<lambda>k. unat (luks_key_offset fd k) * 512 +
                                  4000 * unat (luks_key_bytes fd)) ` {..<8})) \<and>
         (\<forall>k<8. luks_key_stripes fd k = 4000) \<and>
         unat (offset l) = unat (luks_payload_start fd) * 512 \<and>
         sb_end l \<le> offset l \<and>
         offset l mod 512 = 0"
proof -
  note f = read_superblock_ll_fields [OF ok]
  note r = key_slots_result [OF f(1)]
  have set8: "set [0..<8] = {..<8::nat}" by auto
  let ?E = "key_end fd (luks_key_bytes fd)"
  have img: "unat ` insert 592 (?E ` {..<8}) =
       insert 592 ((\<lambda>k. unat (luks_key_offset fd k) * 512 +
                                  4000 * unat (luks_key_bytes fd)) ` {..<8})"
    using unat_key_end [OF kb] ko by (auto simp: image_iff)
  have "unat (sb_end l) = unat (Max (insert 592 (?E ` {..<8})))"
    using r unfolding set8 by simp
  also have "\<dots> = Max (unat ` insert 592 (?E ` {..<8}))"
    by (rule unat_Max) simp_all
  finally have 1: "unat (sb_end l) =
           Max (insert 592 ((\<lambda>k. unat (luks_key_offset fd k) * 512 +
                                  4000 * unat (luks_key_bytes fd)) ` {..<8}))"
    by (simp only: img)
  have 2: "\<forall>k<8. luks_key_stripes fd k = 4000" using r unfolding set8 by auto
  have 3: "unat (offset l) = unat (luks_payload_start fd) * 512"
    unfolding f(2) using unat_ucast_mul [of "luks_payload_start fd" 512] ps by simp
  from 1 2 3 read_superblock_ll_post(3,4) [OF ok] show ?thesis by simp
qed

lemma be32_decode_encode_append: "be32_decode (be32_encode w @ ys) = w"
  by (simp add: be32_decode_append length_be32_encode be32_roundtrip)

lemma length_LUKS_MAGIC: "length LUKS_MAGIC = 6"
  by (simp add: LUKS_MAGIC_def)

lemma length_luks_slot: "length (luks_slot k) = 48"
  by (simp add: luks_slot_def length_be32_encode)

lemma luks_header_fields:
  fixes ps kb k0 k1 k2 k3 k4 k5 k6 k7 rest
  defines "fd \<equiv> luks_header ps kb [k0, k1, k2, k3, k4, k5, k6, k7] @ rest"
  shows "592 \<le> length fd"
    and "pread fd 8 0 = Some (LUKS_MAGIC @ [0, 1])"
    and "luks_payload_start fd = ps"
    and "luks_key_bytes fd = kb"
    and "map (luks_key_offset fd) [0, 1, 2, 3, 4, 5, 6, 7] = [k0, k1, k2, k3, k4, k5, k6, k7]"
    and "map (luks_key_stripes fd) [0, 1, 2, 3, 4, 5, 6, 7] =
           [4000, 4000, 4000, 4000, 4000, 4000, 4000, 4000]"
  unfolding fd_def luks_header_def luks_payload_start_def luks_key_bytes_def
    luks_key_offset_def luks_key_stripes_def pread_def
  by (simp_all add: length_LUKS_MAGIC length_be32_encode length_luks_slot
        be32_decode_encode_append)
     (simp_all add: luks_slot_def be32_decode_encode_append length_be32_encode)

lemma key_slots_all:
  assumes len: "592 \<le> length fd"
    and st: "map (luks_key_stripes fd) [0, 1, 2, 3, 4, 5, 6, 7] =
           [4000, 4000, 4000, 4000, 4000, 4000, 4000, 4000]"
  shows "key_slots fd kb [0..<8] acc =
           Inr (foldl max acc (map (key_end fd kb) [0, 1, 2, 3, 4, 5, 6, 7]))"
proof -
  have u: "[0..<8] = [0, 1, 2, 3, 4, 5, 6, 7::nat]" by (simp add: upt_rec)
  have l: "208 + 48 * k + 48 \<le> length fd" if "k \<le> 7" for k using len that by simp
  have s: "luks_key_stripes fd k = 4000" if "k \<in> set [0, 1, 2, 3, 4, 5, 6, 7]" for k
    using st that by auto
  have step: "key_slots fd kb (k # rest) a = key_slots fd kb rest (max a (key_end fd kb k))"
    if "k \<in> set [0, 1, 2, 3, 4, 5, 6, 7]" for k rest a
  proof -
    have k7: "k \<le> 7" using that by auto
    show ?thesis
      by (simp add: key_slots_Cons [OF l [OF k7]] s [OF that] key_end_def del: key_slots.simps)
  qed
  show ?thesis
    unfolding u by (simp only: step foldl.simps list.map key_slots.simps(1) list.set insert_iff simp_thms)
qed

lemma read_superblock_ll_luks_header:
  fixes ps kb k0 k1 k2 k3 k4 k5 k6 k7 rest
  defines "fd \<equiv> luks_header ps kb [k0, k1, k2, k3, k4, k5, k6, k7] @ rest"
  defines "t \<equiv> foldl max 592
                  (map (\<lambda>ko. (ucast (ko * 512) :: u64) + ucast (4000 * kb))
                     [k0, k1, k2, k3, k4, k5, k6, k7])"
  shows "read_superblock_ll l fd =
     (if ucast (ps * 512) \<noteq> offset l
      then Inl (RuntimeError ''LUKS offset mismatch between high-level and low-level reads'')
      else if ucast (ps * 512) < t
      then Inl (RuntimeError ''LUKS payload offset is less than superblock end'')
      else Inr (l\<lparr>sb_end := t\<rparr>))"
proof -
  note f = luks_header_fields [of ps kb k0 k1 k2 k3 k4 k5 k6 k7 rest, folded fd_def]
  define b2 where "b2 = take 8 (drop 104 fd)"
  have rd: "pread fd 8 (int 104) = Some b2" by (simp add: pread_def b2_def)
  have len: "length b2 = 8" using f(1) by (simp add: b2_def)
  note d = pread_fields [OF rd len]
  have d1: "be32_decode (take 4 b2) = ps" using d(1) f(3) by (simp add: luks_payload_start_def)
  have d2: "be32_decode (drop 4 b2) = kb" using d(2) f(4) by (simp add: luks_key_bytes_def)
  have m: "take 6 (LUKS_MAGIC @ [0, 1]) = LUKS_MAGIC" "length (LUKS_MAGIC @ [0, 1 :: u8]) = 8"
    "be16_decode (drop 6 (LUKS_MAGIC @ [0, 1])) = 1"
    by (simp_all add: length_LUKS_MAGIC be16_decode_def)
  have ke: "map (key_end fd kb) [0, 1, 2, 3, 4, 5, 6, 7] =
        map (\<lambda>ko. (ucast (ko * 512) :: u64) + ucast (4000 * kb))
                     [k0, k1, k2, k3, k4, k5, k6, k7]"
    using f(5) by (simp add: key_end_def)
  have ks: "key_slots fd kb [0..<8] 592 = Inr t"
    unfolding key_slots_all [OF f(1) f(6)] t_def ke ..
  have rd': "pread fd 8 104 = Some b2" using rd by simp
  show ?thesis
    unfolding read_superblock_ll_def f(2) rd' option.case Let_def d1 d2 ks sum.case
    using m len by simp
qed

lemma read_superblock_ll_example:
  "read_superblock_ll \<lparr>offset = 2097152, sb_end = 0\<rparr> luks_example_dev
     = Inr \<lparr>offset = 2097152, sb_end = 1049600\<rparr>"
  unfolding luks_example_dev_def read_superblock_ll_luks_header by simp


lemma less_8_cases: "k < 8 \<Longrightarrow> k \<in> set [0, 1, 2, 3, 4, 5, 6, 7::nat]"
  by (simp) arith

theorem read_superblock_ll_sb_end_witness:
  "read_superblock_ll \<lparr>offset = 2097152, sb_end = 0\<rparr> luks_example_dev
     = Inr \<lparr>offset = 2097152, sb_end = 1049600\<rparr> \<and>
   (1049600 :: nat) =
           Max (insert 592 ((\<lambda>k. unat (luks_key_offset luks_example_dev k) * 512 +
                                  4000 * unat (luks_key_bytes luks_example_dev)) ` {..<8})) \<and>
   (1049600 :: u64) \<le> 2097152 \<and> (2097152 :: u64) mod 512 = 0"
proof -
  note f = luks_header_fields [of 4096 32 8 264 520 776 1032 1288 1544 1800
      "replicate 54525360 0", folded luks_example_dev_def]
  have kb: "4000 * unat (luks_key_bytes luks_example_dev) < 2 ^ 32"
    unfolding f(4) by simp
  have "\<forall>k\<in>set [0, 1, 2, 3, 4, 5, 6, 7]. unat (luks_key_offset luks_example_dev k) * 512 < 2 ^ 32"
    using f(5) by simp
  then have ko: "\<forall>k<8. unat (luks_key_offset luks_example_dev k) * 512 < 2 ^ 32"
    using less_8_cases by blast
  have ps: "unat (luks_payload_start luks_example_dev) * 512 < 2 ^ 32"
    unfolding f(3) by simp
  from read_superblock_ll_sb_end [OF read_superblock_ll_example kb ko ps]
  show ?thesis using read_superblock_ll_example by simp
qed

text \<open>
  The claim as stated also makes \<open>sb_end\<close> a multiple of 512. With 192-bit keys the key
  material of the last slot ends at \<open>1352 * 512 + 4000 * 24 = 788224\<close>, which is not.
\<close>

theorem read_superblock_ll_unaligned_sb_end:
  "read_superblock_ll \<lparr>offset = 2097152, sb_end = 0\<rparr> luks_example_dev_192
     = Inr \<lparr>offset = 2097152, sb_end = 788224\<rparr> \<and> (788224 :: u64) mod 512 = 256"
  unfolding luks_example_dev_192_def read_superblock_ll_luks_header by simp

section \<open>Shifting the LUKS header\<close>









section \<open>Copying a synthetic device with a negative shift\<close>

text \<open>
  Claim C7 says that \<open>copy_to_physical\<close> wraps a negative \<open>shift_by\<close> around the size of
  the synthetic device, so that \<open>copy_to_physical(fd, -pe)\<close> writes the head at
  \<open>head + middle + tail - pe\<close>. The parameter is unsigned: the branch \<open>shift_by < 0\<close> is
  never taken, and the value reaches \<open>pwrite\<close> as a negative \<open>off_t\<close>. Whatever the
  synthetic device and the target, such a call ends in an error and writes nothing.
\<close>

theorem copy_to_physical_negative_shift:
  "sint shift_by < 0 \<Longrightarrow>
     \<exists>e. copy_to_physical sd dev shift_by reserved_area other_device = (Inl e, dev)"
  by (auto simp: copy_to_physical_def Let_def pwrite_def)

theorem copy_to_physical_negative_shift_witness:
  "sint (- 4194304 :: u64) < 0 \<and>
   (\<exists>e. copy_to_physical
          \<lparr>data = replicate 4194304 1, writable_hdr_size = 4194304,
           rz_size = 100663296, writable_end_size = 0\<rparr>
          (replicate 104857600 0) (- 4194304) 0 False
        = (Inl e, replicate 104857600 0))"
proof -
  have neg: "sint (- 4194304 :: u64) < 0" by simp
  from copy_to_physical_negative_shift [OF neg] neg show ?thesis by blast
qed

section \<open>The order of the calls of a stack operation\<close>

lemma map_sum_eq_Inr: "map_sum f g x = Inr y \<longleftrightarrow> (\<exists>z. x = Inr z \<and> y = g z)"
  by (cases x) auto

lemma map_sum_eq_Inl: "map_sum f g x = Inl y \<longleftrightarrow> (\<exists>z. x = Inl z \<and> y = f z)"
  by (cases x) auto

lemma reserve_loop_calls:
  "prefix (fst (reserve_loop env ps)) (reserve_calls ps) \<and>
   (\<forall>st. snd (reserve_loop env ps) = Inr st \<longrightarrow> fst (reserve_loop env ps) = reserve_calls ps)"
proof (induction env ps rule: reserve_loop.induct)
  case (1 env)
  then show ?case by (simp add: reserve_calls_def)
next
  case (2 env inner_pos fs rest)
  then show ?case
    by (cases "reserve_loop env rest")
       (auto simp: reserve_calls_def map_sum_eq_Inr split: sum.splits prod.splits)
next
  case (3 env inner_pos l rest)
  then show ?case
    by (cases "reserve_loop env rest")
       (auto simp: reserve_calls_def map_sum_eq_Inr split: sum.splits prod.splits)
next
  case (4 env inner_pos b rest)
  then show ?case
    by (cases "reserve_loop env rest")
       (auto simp: reserve_calls_def map_sum_eq_Inr split: sum.splits prod.splits)
qed

lemma iter_pos_loop_eq:
  "iter_pos_loop pos ws =
     (map (\<lambda>i. (pos - sum_list (map layer_offset (take i ws)), ws ! i)) [0..<length ws],
      pos - sum_list (map layer_offset ws))"
proof (induction ws arbitrary: pos)
  case Nil
  then show ?case by simp
next
  case (Cons w ws)
  have step: "(case container_offset w of Some off \<Rightarrow> pos - off | None \<Rightarrow> pos)
                = pos - layer_offset w"
    by (simp add: layer_offset_def split: option.splits)
  show ?case
    unfolding iter_pos_loop.simps step Cons.IH
    by (simp add: map_upt_Suc diff_diff_eq del: upt_Suc)
qed

lemma iter_pos_eq:
  assumes "stack \<noteq> []"
  shows "iter_pos stack pos =
     map (\<lambda>i. (pos - sum_list (map layer_offset (take i stack)), stack ! i))
         [0..<length stack]"
proof -
  obtain ws t where st: "stack = ws @ [t]"
    using assms by (metis append_butlast_last_id)
  have "iter_pos stack pos =
          map (\<lambda>i. (pos - sum_list (map layer_offset (take i ws)), ws ! i)) [0..<length ws] @
          [(pos - sum_list (map layer_offset ws), t)]"
    by (simp add: iter_pos_def wrappers_def topmost_def st iter_pos_loop_eq)
  also have "\<dots> = map (\<lambda>i. (pos - sum_list (map layer_offset (take i stack)), stack ! i))
                      [0..<length stack]"
    by (simp add: st nth_append)
  finally show ?thesis .
qed

lemma reserve_calls_rev: "reserve_calls (rev ps) = rev (reserve_calls ps)"
  by (simp add: reserve_calls_def rev_map rev_filter)

lemma stack_reserve_calls:
  "prefix (fst (stack_reserve_end_area env progress stack pos))
          (rev (reserve_calls (iter_pos stack pos))) \<and>
   (\<forall>st. snd (stack_reserve_end_area env progress stack pos) = Inr st \<longrightarrow>
         fst (stack_reserve_end_area env progress stack pos)
           = rev (reserve_calls (iter_pos stack pos)))"
proof -
  obtain calls r where l: "reserve_loop env (rev (iter_pos stack pos)) = (calls, r)"
    by (cases "reserve_loop env (rev (iter_pos stack pos))")
  from reserve_loop_calls [of env "rev (iter_pos stack pos)"] l
  have p: "prefix calls (rev (reserve_calls (iter_pos stack pos)))"
    and e: "\<And>st. r = Inr st \<Longrightarrow> calls = rev (reserve_calls (iter_pos stack pos))"
    by (auto simp: reserve_calls_rev)
  show ?thesis
    unfolding stack_reserve_end_area_def
    using p e l
    by (auto simp: map_sum_eq_Inr split: option.splits layer.splits sum.splits)
qed

lemma luks_grow_nonrec_size:
  "luks_grow_nonrec env l p = Inr (l', s) \<Longrightarrow> s = p"
  by (auto simp: luks_grow_nonrec_def luks_reserve_end_area_nonrec_def Let_def
           split: sum.splits)

lemma bcache_grow_nonrec_size:
  "bcache_grow_nonrec env b p = Inr (b', s) \<Longrightarrow> s = p"
  by (auto simp: bcache_grow_nonrec_def split: sum.splits if_splits)

lemma grow_calls_Cons:
  "map (\<lambda>i. Grow_nonrec ((w # ws) ! i) (sz - sum_list (map layer_offset (take i (w' # ws')))))
       [0..<Suc (length ws)]
   = Grow_nonrec w sz #
     map (\<lambda>i. Grow_nonrec (ws ! i) (sz - layer_offset w' - sum_list (map layer_offset (take i ws'))))
         [0..<length ws]"
  by (simp add: map_upt_Suc diff_diff_eq del: upt_Suc)

lemma grow_loop_positions:
  assumes "list_all (\<lambda>w. container_offset w \<noteq> None) ws"
  shows "(\<exists>ps. length ps \<le> length ws \<and>
               fst (grow_loop env sz ws) = map2 Grow_nonrec (take (length ps) ws) ps) \<and>
         (\<forall>ws' s. snd (grow_loop env sz ws) = Inr (ws', s) \<longrightarrow>
              length ws' = length ws \<and>
              fst (grow_loop env sz ws) =
                map (\<lambda>i. Grow_nonrec (ws ! i) (sz - sum_list (map layer_offset (take i ws'))))
                    [0..<length ws] \<and>
              s = sz - sum_list (map layer_offset ws'))"
  using assms
proof (induction env sz ws rule: grow_loop.induct)
  case (1 env current_size)
  then show ?case by simp
next
  case (2 env current_size l rest)
  show ?case
  proof (cases "luks_grow_nonrec env l current_size")
    case (Inl e)
    have "fst (grow_loop env current_size (LUKS_layer l # rest))
            = map2 Grow_nonrec (take (length [current_size]) (LUKS_layer l # rest)) [current_size]"
      using Inl by simp
    moreover have "length [current_size] \<le> length (LUKS_layer l # rest)" by simp
    ultimately have "\<exists>ps. length ps \<le> length (LUKS_layer l # rest) \<and>
               fst (grow_loop env current_size (LUKS_layer l # rest))
                 = map2 Grow_nonrec (take (length ps) (LUKS_layer l # rest)) ps"
      by blast
    with Inl show ?thesis by simp
  next
    case (Inr r)
    obtain l' sz where r: "r = (l', sz)" by (cases r)
    from Inr r have sz: "sz = current_size" by (simp add: luks_grow_nonrec_size)
    obtain calls res where g: "grow_loop env (sz - offset l') rest = (calls, res)"
      by (cases "grow_loop env (sz - offset l') rest")
    from "2.prems" have "list_all (\<lambda>w. container_offset w \<noteq> None) rest" by simp
    note ih = "2.IH" [OF Inr [unfolded r] refl this, unfolded g fst_conv snd_conv]
    from ih obtain ps where ps: "length ps \<le> length rest"
      "calls = map2 Grow_nonrec (take (length ps) rest) ps" by blast
    have e: "fst (grow_loop env current_size (LUKS_layer l # rest))
               = Grow_nonrec (LUKS_layer l) current_size # calls"
      using Inr r g by simp
    have "fst (grow_loop env current_size (LUKS_layer l # rest))
            = map2 Grow_nonrec (take (length (current_size # ps)) (LUKS_layer l # rest))
                (current_size # ps)"
      unfolding e ps(2) by simp
    moreover have "length (current_size # ps) \<le> length (LUKS_layer l # rest)"
      using ps(1) by simp
    ultimately have first: "\<exists>ps. length ps \<le> length (LUKS_layer l # rest) \<and>
               fst (grow_loop env current_size (LUKS_layer l # rest))
                 = map2 Grow_nonrec (take (length ps) (LUKS_layer l # rest)) ps"
      by blast
    have second: "length ws' = length (LUKS_layer l # rest) \<and>
              fst (grow_loop env current_size (LUKS_layer l # rest)) =
                map (\<lambda>i. Grow_nonrec ((LUKS_layer l # rest) ! i)
                            (current_size - sum_list (map layer_offset (take i ws'))))
                    [0..<length (LUKS_layer l # rest)] \<and>
              s = current_size - sum_list (map layer_offset ws')"
      if "snd (grow_loop env current_size (LUKS_layer l # rest)) = Inr (ws', s)" for ws' s
    proof -
      from that Inr r g obtain ws'' where res: "res = Inr (ws'', s)"
        and w: "ws' = LUKS_layer l' # ws''"
        by (auto simp: map_sum_eq_Inr)
      from ih res have l: "length ws'' = length rest"
        and c: "calls = map (\<lambda>i. Grow_nonrec (rest ! i)
                    (sz - offset l' - sum_list (map layer_offset (take i ws''))))
                    [0..<length rest]"
        and s: "s = sz - offset l' - sum_list (map layer_offset ws'')"
        by blast+
      have lo: "layer_offset (LUKS_layer l') = offset l'" by (simp add: layer_offset_def)
      have c': "calls = map (\<lambda>i. Grow_nonrec (rest ! i)
                    (current_size - layer_offset (LUKS_layer l')
                       - sum_list (map layer_offset (take i ws''))))
                    [0..<length rest]"
        using c by (simp only: sz lo)
      have A: "fst (grow_loop env current_size (LUKS_layer l # rest)) =
                map (\<lambda>i. Grow_nonrec ((LUKS_layer l # rest) ! i)
                            (current_size - sum_list (map layer_offset (take i (LUKS_layer l' # ws'')))))
                    [0..<Suc (length rest)]"
        unfolding e c' by (rule grow_calls_Cons [symmetric])
      have B: "Suc (length ws'') = Suc (length rest)" using l by simp
      have C: "s = current_size - sum_list (map layer_offset (LUKS_layer l' # ws''))"
        using s by (simp add: lo sz diff_diff_eq)
      show ?thesis unfolding w length_Cons using A B C by blast
    qed
    from first second show ?thesis by blast
  qed
next
  case (3 env current_size b rest)
  show ?case
  proof (cases "bcache_grow_nonrec env b current_size")
    case (Inl e)
    have "fst (grow_loop env current_size (BCache_layer b # rest))
            = map2 Grow_nonrec (take (length [current_size]) (BCache_layer b # rest)) [current_size]"
      using Inl by simp
    moreover have "length [current_size] \<le> length (BCache_layer b # rest)" by simp
    ultimately have "\<exists>ps. length ps \<le> length (BCache_layer b # rest) \<and>
               fst (grow_loop env current_size (BCache_layer b # rest))
                 = map2 Grow_nonrec (take (length ps) (BCache_layer b # rest)) ps"
      by blast
    with Inl show ?thesis by simp
  next
    case (Inr r)
    obtain b' sz where r: "r = (b', sz)" by (cases r)
    from Inr r have sz: "sz = current_size" by (simp add: bcache_grow_nonrec_size)
    obtain calls res where g: "grow_loop env (sz - bc_offset b') rest = (calls, res)"
      by (cases "grow_loop env (sz - bc_offset b') rest")
    from "3.prems" have "list_all (\<lambda>w. container_offset w \<noteq> None) rest" by simp
    note ih = "3.IH" [OF Inr [unfolded r] refl this, unfolded g fst_conv snd_conv]
    from ih obtain ps where ps: "length ps \<le> length rest"
      "calls = map2 Grow_nonrec (take (length ps) rest) ps" by blast
    have e: "fst (grow_loop env current_size (BCache_layer b # rest))
               = Grow_nonrec (BCache_layer b) current_size # calls"
      using Inr r g by simp
    have "fst (grow_loop env current_size (BCache_layer b # rest))
            = map2 Grow_nonrec (take (length (current_size # ps)) (BCache_layer b # rest))
                (current_size # ps)"
      unfolding e ps(2) by simp
    moreover have "length (current_size # ps) \<le> length (BCache_layer b # rest)"
      using ps(1) by simp
    ultimately have first: "\<exists>ps. length ps \<le> length (BCache_layer b # rest) \<and>
               fst (grow_loop env current_size (BCache_layer b # rest))
                 = map2 Grow_nonrec (take (length ps) (BCache_layer b # rest)) ps"
      by blast
    have second: "length ws' = length (BCache_layer b # rest) \<and>
              fst (grow_loop env current_size (BCache_layer b # rest)) =
                map (\<lambda>i. Grow_nonrec ((BCache_layer b # rest) ! i)
                            (current_size - sum_list (map layer_offset (take i ws'))))
                    [0..<length (BCache_layer b # rest)] \<and>
              s = current_size - sum_list (map layer_offset ws')"
      if "snd (grow_loop env current_size (BCache_layer b # rest)) = Inr (ws', s)" for ws' s
    proof -
      from that Inr r g obtain ws'' where res: "res = Inr (ws'', s)"
        and w: "ws' = BCache_layer b' # ws''"
        by (auto simp: map_sum_eq_Inr)
      from ih res have l: "length ws'' = length rest"
        and c: "calls = map (\<lambda>i. Grow_nonrec (rest ! i)
                    (sz - bc_offset b' - sum_list (map layer_offset (take i ws''))))
                    [0..<length rest]"
        and s: "s = sz - bc_offset b' - sum_list (map layer_offset ws'')"
        by blast+
      have lo: "layer_offset (BCache_layer b') = bc_offset b'" by (simp add: layer_offset_def)
      have c': "calls = map (\<lambda>i. Grow_nonrec (rest ! i)
                    (current_size - layer_offset (BCache_layer b')
                       - sum_list (map layer_offset (take i ws''))))
                    [0..<length rest]"
        using c by (simp only: sz lo)
      have A: "fst (grow_loop env current_size (BCache_layer b # rest)) =
                map (\<lambda>i. Grow_nonrec ((BCache_layer b # rest) ! i)
                            (current_size - sum_list (map layer_offset (take i (BCache_layer b' # ws'')))))
                    [0..<Suc (length rest)]"
        unfolding e c' by (rule grow_calls_Cons [symmetric])
      have B: "Suc (length ws'') = Suc (length rest)" using l by simp
      have C: "s = current_size - sum_list (map layer_offset (BCache_layer b' # ws''))"
        using s by (simp add: lo sz diff_diff_eq)
      show ?thesis unfolding w length_Cons using A B C by blast
    qed
    from first second show ?thesis by blast
  qed
next
  case (4 env current_size fs rest)
  then show ?case by simp
qed


lemma stack_grow_positions:
  assumes "well_formed_stack stack"
  shows "(\<exists>ps. length ps \<le> length stack \<and>
               fst (stack_grow env stack new_size)
                 = map2 Grow_nonrec (take (length ps) stack) ps) \<and>
         (\<forall>st. snd (stack_grow env stack new_size) = Inr st \<longrightarrow>
              length st = length stack \<and>
              fst (stack_grow env stack new_size) =
                map (\<lambda>i. Grow_nonrec (stack ! i)
                            (new_size - sum_list (map layer_offset (take i st))))
                    [0..<length stack])"
proof -
  from assms obtain ws fs where st: "stack = ws @ [FS_layer fs]"
    and ws: "list_all (\<lambda>w. container_offset w \<noteq> None) ws"
    unfolding well_formed_stack_def
    by (cases stack rule: rev_cases) (auto split: layer.splits)
  obtain calls r where l: "grow_loop env new_size ws = (calls, r)"
    by (cases "grow_loop env new_size ws")
  note gl = grow_loop_positions [OF ws, of env new_size, unfolded l fst_conv snd_conv]
  from gl obtain ps where ps: "length ps \<le> length ws"
    "calls = map2 Grow_nonrec (take (length ps) ws) ps" by blast
  have wt: "wrappers stack = ws" "topmost stack = Some (FS_layer fs)"
    by (simp_all add: st wrappers_def topmost_def)
  show ?thesis
  proof (cases r)
    case (Inl e)
    then have f: "stack_grow env stack new_size = (calls, Inl e)"
      by (simp add: stack_grow_def wt l)
    have "calls = map2 Grow_nonrec (take (length ps) stack) ps"
      using ps by (simp add: st)
    moreover have "length ps \<le> length stack" using ps(1) by (simp add: st)
    ultimately show ?thesis unfolding f by auto
  next
    case (Inr x)
    obtain ws' cur where x: "x = (ws', cur)" by (cases x)
    from gl Inr x have len: "length ws' = length ws"
      and c: "calls = map (\<lambda>i. Grow_nonrec (ws ! i)
                   (new_size - sum_list (map layer_offset (take i ws')))) [0..<length ws]"
      and cur: "cur = new_size - sum_list (map layer_offset ws')"
      by blast+
    have f: "fst (stack_grow env stack new_size) = calls @ [Grow_nonrec (FS_layer fs) cur]"
      by (simp add: stack_grow_def wt l Inr x split: sum.splits prod.splits)
    have lp: "length ps = length ws"
    proof -
      from c have "length calls = length ws" by simp
      moreover from ps have "length calls = length ps" by simp
      ultimately show ?thesis by simp
    qed
    have "calls @ [Grow_nonrec (FS_layer fs) cur]
            = map2 Grow_nonrec (take (length (ps @ [cur])) stack) (ps @ [cur])"
      using ps(2) lp by (simp add: st)
    moreover have "length (ps @ [cur]) \<le> length stack" using lp by (simp add: st)
    ultimately have first: "\<exists>ps. length ps \<le> length stack \<and>
               fst (stack_grow env stack new_size)
                 = map2 Grow_nonrec (take (length ps) stack) ps"
      unfolding f by blast
    have second: "length st' = length stack \<and>
              fst (stack_grow env stack new_size) =
                map (\<lambda>i. Grow_nonrec (stack ! i)
                            (new_size - sum_list (map layer_offset (take i st'))))
                    [0..<length stack]"
      if "snd (stack_grow env stack new_size) = Inr st'" for st'
    proof -
      from that obtain fs' where s': "st' = ws' @ [FS_layer fs']"
        by (auto simp: stack_grow_def wt l Inr x split: sum.splits prod.splits)
      have "map (\<lambda>i. Grow_nonrec (stack ! i)
                            (new_size - sum_list (map layer_offset (take i st'))))
                    [0..<length stack]
            = calls @ [Grow_nonrec (FS_layer fs) cur]"
        unfolding c cur by (simp add: st s' len nth_append)
      with f len show ?thesis by (simp add: st s')
    qed
    from first second show ?thesis by blast
  qed
qed

text \<open>
  Claim C3. On a stack of containers around a file system, the positions of \<open>iter_pos\<close>
  are \<open>pos\<close> minus the offsets of the layers above each layer;
  \<open>stack_reserve_end_area\<close> calls \<open>reserve_end_area_nonrec\<close> with these positions,
  innermost layer first, once on the file system and on every LUKS wrapper and never on a
  bcache wrapper. The calls of \<open>stack_grow\<close> are calls of \<open>grow_nonrec\<close> on the layers
  of the stack from the outermost on; in a run that returns there is one on every layer,
  the file system last, each with the new size minus the offsets that the layers above
  have after their own call. A run that fails has made the calls up to the failing one.
\<close>

theorem stack_walk_order:
  assumes "well_formed_stack stack"
  shows "iter_pos stack pos =
           map (\<lambda>i. (pos - sum_list (map layer_offset (take i stack)), stack ! i))
               [0..<length stack] \<and>
         prefix (fst (stack_reserve_end_area env progress stack pos))
                (rev (reserve_calls (iter_pos stack pos))) \<and>
         (\<forall>st. snd (stack_reserve_end_area env progress stack pos) = Inr st \<longrightarrow>
               fst (stack_reserve_end_area env progress stack pos)
                 = rev (reserve_calls (iter_pos stack pos))) \<and>
         (\<exists>ps. length ps \<le> length stack \<and>
               fst (stack_grow env stack new_size)
                 = map2 Grow_nonrec (take (length ps) stack) ps) \<and>
         (\<forall>st. snd (stack_grow env stack new_size) = Inr st \<longrightarrow>
               length st = length stack \<and>
               fst (stack_grow env stack new_size) =
                 map (\<lambda>i. Grow_nonrec (stack ! i)
                             (new_size - sum_list (map layer_offset (take i st))))
                     [0..<length stack])"
proof -
  from assms have ne: "stack \<noteq> []" by (simp add: well_formed_stack_def)
  from iter_pos_eq [OF ne] stack_reserve_calls stack_grow_positions [OF assms]
  show ?thesis by blast
qed

text \<open>
  The claim as stated has every wrapper called. On a bcache backing device around an ext4
  the run completes with the single call on the file system.
\<close>

theorem stack_reserve_end_area_skips_bcache:
  "stack_reserve_end_area tools_succeed CLIProgressHandler
     [BCache_layer bcache_8K, FS_layer ext4_39M] 100663296
   = ([Reserve_end_area_nonrec (FS_layer ext4_39M) 100655104],
      Inr [BCache_layer bcache_8K, FS_layer ext4_39M])"
  by (simp add: stack_reserve_end_area_def topmost_def wrappers_def overhead_def iter_pos_def
        align_def fssize_def fs_reserve_end_area_nonrec_def ext4_39M_def bcache_8K_def)

lemmas stack_example_defs =
  stack_reserve_end_area_def stack_grow_def topmost_def wrappers_def overhead_def iter_pos_def
  align_def fssize_def fs_reserve_end_area_nonrec_def fs_grow_nonrec_def
  luks_reserve_end_area_nonrec_def luks_grow_nonrec_def bcache_grow_nonrec_def
  mount_and_resize_def bytes_to_sector_def tools_succeed_def
  ext4_98M_def ext4_39M_def luks_2M_def bcache_8K_def

lemma grow_example:
  "stack_grow tools_succeed [LUKS_layer luks_2M, FS_layer ext4_98M] 104857600
     = ([Grow_nonrec (LUKS_layer luks_2M) 104857600, Grow_nonrec (FS_layer ext4_98M) 102760448],
        Inr [LUKS_layer luks_2M, FS_layer ext4_98M])"
  by (simp add: stack_example_defs)

theorem stack_walk_order_witness:
  "well_formed_stack [LUKS_layer luks_2M, FS_layer ext4_98M] \<and>
   fst (stack_reserve_end_area tools_succeed CLIProgressHandler
          [LUKS_layer luks_2M, FS_layer ext4_98M] 100663296)
     = [Reserve_end_area_nonrec (FS_layer ext4_98M) 98566144,
        Reserve_end_area_nonrec (LUKS_layer luks_2M) 100663296] \<and>
   fst (stack_grow tools_succeed [LUKS_layer luks_2M, FS_layer ext4_98M] 104857600)
     = [Grow_nonrec (LUKS_layer luks_2M) 104857600,
        Grow_nonrec (FS_layer ext4_98M) 102760448]"
proof -
  let ?stack = "[LUKS_layer luks_2M, FS_layer ext4_98M]"
  have wf: "well_formed_stack ?stack" by (simp add: well_formed_stack_def)
  have r: "snd (stack_reserve_end_area tools_succeed CLIProgressHandler ?stack 100663296)
             = Inr [LUKS_layer luks_2M,
                    FS_layer (ext4_98M\<lparr>block_count := 24064\<rparr>)]"
    by (simp add: stack_example_defs)
  have g: "snd (stack_grow tools_succeed ?stack 104857600) = Inr ?stack"
    by (simp add: grow_example)
  have c: "rev (reserve_calls (iter_pos ?stack 100663296))
             = [Reserve_end_area_nonrec (FS_layer ext4_98M) 98566144,
                Reserve_end_area_nonrec (LUKS_layer luks_2M) 100663296]"
    by (simp add: reserve_calls_def iter_pos_def wrappers_def topmost_def luks_2M_def)
  have u: "[0..<length ?stack] = [0, 1]" by (simp add: upt_rec)
  have o: "layer_offset (LUKS_layer luks_2M) = 2097152"
    by (simp add: layer_offset_def luks_2M_def)
  note t = stack_walk_order [OF wf, of 100663296 tools_succeed CLIProgressHandler 104857600]
  from t r have "fst (stack_reserve_end_area tools_succeed CLIProgressHandler ?stack 100663296)
                   = rev (reserve_calls (iter_pos ?stack 100663296))" by blast
  moreover from t g have "fst (stack_grow tools_succeed ?stack 104857600)
                   = map (\<lambda>i. Grow_nonrec (?stack ! i)
                             (104857600 - sum_list (map layer_offset (take i ?stack))))
                         [0..<length ?stack]" by blast
  then have "fst (stack_grow tools_succeed ?stack 104857600)
                   = [Grow_nonrec (LUKS_layer luks_2M) 104857600,
                      Grow_nonrec (FS_layer ext4_98M) 102760448]"
    unfolding u by (simp add: o)
  ultimately show ?thesis using wf c by simp
qed

section \<open>Conversion to LVM\<close>

subsection \<open>Runs with events\<close>

lemma snd_bnd: "snd (bnd m f) = (case snd m of Inl e \<Rightarrow> Inl e | Inr x \<Rightarrow> snd (f x))"
  by (cases m) (auto simp: bnd_def split: sum.splits prod.splits)

lemma fst_bnd: "fst (bnd m f) = (case snd m of Inl e \<Rightarrow> fst m | Inr x \<Rightarrow> fst m @ fst (f x))"
  by (cases m) (auto simp: bnd_def split: sum.splits prod.splits)

lemma io_simps:
  "fst (ret x) = []" "snd (ret x) = Inr x"
  "fst (fail e) = []" "snd (fail e) = Inl e"
  "fst (emit ev) = [ev]" "snd (emit ev) = Inr ()"
  "fst (lift r) = []" "snd (lift r) = r"
  "fst (check b e) = []" "snd (check b e) = (if b then Inr () else Inl e)"
  "fst (quiet_call env cmd table) = [Quiet_call cmd table]"
  "snd (quiet_call env cmd table) =
     (if cmd_ok env cmd then Inr () else Inl (RuntimeError (''Command failed: '' @ join_cmd cmd)))"
  "fst (remove_stale devs) = map (\<lambda>dev. System_call (''dmsetup remove '' @ dev @ '' 2>/dev/null'')) devs"
  "snd (remove_stale devs) = Inr ()"
  "fst (layer_run lr) = map Layer_call (fst lr)" "snd (layer_run lr) = snd lr"
  by (simp_all add: ret_def fail_def emit_def lift_def check_def quiet_call_def
        remove_stale_def layer_run_def)

lemma rethrow_as_simps:
  "fst (rethrow_as m e) = fst m"
  "snd (rethrow_as (quiet_call env cmd table) e) = (if cmd_ok env cmd then Inr () else Inl e)"
  by (cases m; auto simp: rethrow_as_def quiet_call_def split: sum.splits error.splits)+

lemma snd_bnd_emit: "snd (bnd (emit ev) f) = snd (f ())"
  by (simp add: snd_bnd io_simps)

lemma snd_bnd_check: "snd (bnd (check b e) f) = (if b then snd (f ()) else Inl e)"
  by (simp add: snd_bnd io_simps)

lemma in_bnd_emitI: "ev \<in> set (fst (f ())) \<Longrightarrow> ev \<in> set (fst (bnd (emit ev') f))"
  by (simp add: fst_bnd io_simps)

lemma in_bnd_checkI: "b \<Longrightarrow> ev \<in> set (fst (f ())) \<Longrightarrow> ev \<in> set (fst (bnd (check b e) f))"
  by (simp add: fst_bnd io_simps)

lemma in_bnd_emit_here: "ev \<in> set (fst (bnd (emit ev) f))"
  by (simp add: fst_bnd io_simps)

lemma in_bnd_InrI: "snd m = Inr x \<Longrightarrow> ev \<in> set (fst (f x)) \<Longrightarrow> ev \<in> set (fst (bnd m f))"
  by (simp add: fst_bnd)

lemma snd_bnd_Inr: "snd (bnd m f) = Inr y \<Longrightarrow> \<exists>x. snd m = Inr x \<and> snd (f x) = Inr y"
  by (auto simp: snd_bnd split: sum.splits)

subsection \<open>The preparation and the copy of the first extent\<close>

lemma lvm_geometry_Inr:
  assumes "lvm_geometry sz pe = Inr (s, c, p)"
  shows "s = pe div 512" "c = sz div pe - 1" "p = c * pe" "4096 \<le> pe" "pe mod 512 = 0"
  using assms
  by (auto simp: lvm_geometry_def bytes_to_sector_def Let_def split: if_splits)

lemma to_lvm_prepare_events:
  "set (fst (to_lvm_prepare env args)) \<subseteq> set (fst (get_block_stack env))"
  by (auto simp: to_lvm_prepare_def fst_bnd snd_bnd io_simps Let_def
           split: sum.splits prod.splits if_splits)

lemma dvd_512_mod:
  assumes "(512 :: u64) dvd x"
  shows "x mod 512 = 0"
proof -
  from assms obtain k where k: "x = 512 * k" by (auto simp: dvd_def)
  have "unat (x mod 512) = ((512 * unat k) mod 2 ^ 64) mod 512"
    by (simp add: k unat_mod unat_word_ariths)
  also have "\<dots> = (512 * unat k) mod 512"
    by (rule mod_mod_cancel) simp
  also have "\<dots> = 0" by simp
  finally show ?thesis by (simp flip: unat_eq_zero)
qed

lemma to_lvm_prepare_Inr:
  assumes "snd (to_lvm_prepare env args) = Inr plan"
  shows "blockdev_getsize64 env = Some (plan_device_size plan)"
    "plan_device_size plan mod 512 = 0"
    "choose_vg env args = Inr (plan_vgname plan, plan_pe_size plan, plan_join_name plan)"
    "lvm_geometry (plan_device_size plan) (plan_pe_size plan)
       = Inr (plan_pe_sectors plan, plan_pe_count plan, plan_pe_newpos plan)"
proof -
  from assms have a: "blockdev_getsize64 env = Some (plan_device_size plan) \<and>
    512 dvd plan_device_size plan \<and>
    choose_vg env args = Inr (plan_vgname plan, plan_pe_size plan, plan_join_name plan) \<and>
    lvm_geometry (plan_device_size plan) (plan_pe_size plan)
       = Inr (plan_pe_sectors plan, plan_pe_count plan, plan_pe_newpos plan)"
    by (auto simp: to_lvm_prepare_def snd_bnd io_simps Let_def
           split: sum.splits prod.splits if_splits option.splits)
  then show "blockdev_getsize64 env = Some (plan_device_size plan)"
    "choose_vg env args = Inr (plan_vgname plan, plan_pe_size plan, plan_join_name plan)"
    "lvm_geometry (plan_device_size plan) (plan_pe_size plan)
       = Inr (plan_pe_sectors plan, plan_pe_count plan, plan_pe_newpos plan)"
    by blast+
  from a have "512 dvd plan_device_size plan" by blast
  then show "plan_device_size plan mod 512 = 0" by (rule dvd_512_mod)
qed

lemma to_lvm_prepare_requires:
  assumes "blockdev_getsize64 env = Some sz" and "choose_vg env args = Inr (vg, pe, jn)"
    and "sz mod 512 \<noteq> 0 \<or> pe < 4096"
  shows "\<exists>e. snd (to_lvm_prepare env args) = Inl e"
proof (cases "snd (to_lvm_prepare env args)")
  case (Inl e)
  then show ?thesis by blast
next
  case (Inr plan)
  from to_lvm_prepare_Inr [OF Inr] assms(1,2)
  have "plan_device_size plan = sz" "plan_pe_size plan = pe" "sz mod 512 = 0"
    "lvm_geometry sz pe = Inr (plan_pe_sectors plan, plan_pe_count plan, plan_pe_newpos plan)"
    by auto
  with lvm_geometry_Inr(4) [OF this(4)] assms(3) show ?thesis by (simp add: not_less [symmetric])
qed

lemma to_lvm_metadata_copy:
  assumes "snd (to_lvm_metadata env args plan) = Inr rc"
  shows "Pwrite (device args) (plan_pe_size plan) (plan_pe_newpos plan)
           \<in> set (fst (to_lvm_metadata env args plan))"
proof -
  from assms have ok: "open_excl_copy_ok env" "pread_copy_ok env"
    unfolding to_lvm_metadata_def snd_bnd_emit snd_bnd_check
    by (auto split: if_splits)
  show ?thesis
    unfolding to_lvm_metadata_def
    by (intro in_bnd_emitI in_bnd_checkI ok in_bnd_emit_here)
qed

lemma to_lvm_convert_Inr:
  assumes "snd (to_lvm_convert env args) = Inr rc"
  shows "\<exists>plan. snd (to_lvm_prepare env args) = Inr plan \<and>
           Pwrite (device args) (plan_pe_size plan) (plan_pe_newpos plan)
             \<in> set (fst (to_lvm_convert env args))"
proof -
  from snd_bnd_Inr [OF assms [unfolded to_lvm_convert_def]]
  obtain plan where p: "snd (to_lvm_prepare env args) = Inr plan"
    and 1: "snd (bnd (lift (read_superblocks env (plan_block_stack plan))) (\<lambda>block_stack.
     bnd (rethrow_as (quiet_call env [''e2fsck'', ''-f'', ''-y'', ''--'', device args] [])
            (RuntimeError (''Filesystem check failed, please repair manually with 'e2fsck -f ''
                           @ device args @ [CHR 0x27]))) (\<lambda>_.
     bnd (layer_run (stack_reserve_end_area (layer_tools env) CLIProgressHandler
                       block_stack (plan_pe_newpos plan))) (\<lambda>block_stack.
     bnd (emit Stack_deactivate) (\<lambda>_.
     bnd (lift (case deactivate env block_stack of
                  Some e \<Rightarrow> Inl e
                | None \<Rightarrow> Inr ())) (\<lambda>_.
     to_lvm_metadata env args plan)))))) = Inr rc"
    by blast
  from snd_bnd_Inr [OF 1] obtain st1 where s1: "snd (lift (read_superblocks env (plan_block_stack plan))) = Inr st1"
    and 2: "snd (bnd (rethrow_as (quiet_call env [''e2fsck'', ''-f'', ''-y'', ''--'', device args] [])
            (RuntimeError (''Filesystem check failed, please repair manually with 'e2fsck -f ''
                           @ device args @ [CHR 0x27]))) (\<lambda>_.
     bnd (layer_run (stack_reserve_end_area (layer_tools env) CLIProgressHandler
                       st1 (plan_pe_newpos plan))) (\<lambda>block_stack.
     bnd (emit Stack_deactivate) (\<lambda>_.
     bnd (lift (case deactivate env block_stack of
                  Some e \<Rightarrow> Inl e
                | None \<Rightarrow> Inr ())) (\<lambda>_.
     to_lvm_metadata env args plan))))) = Inr rc"
    by blast
  from snd_bnd_Inr [OF 2] obtain u where s2: "snd (rethrow_as (quiet_call env [''e2fsck'', ''-f'', ''-y'', ''--'', device args] [])
            (RuntimeError (''Filesystem check failed, please repair manually with 'e2fsck -f ''
                           @ device args @ [CHR 0x27]))) = Inr u"
    and 3: "snd (bnd (layer_run (stack_reserve_end_area (layer_tools env) CLIProgressHandler
                       st1 (plan_pe_newpos plan))) (\<lambda>block_stack.
     bnd (emit Stack_deactivate) (\<lambda>_.
     bnd (lift (case deactivate env block_stack of
                  Some e \<Rightarrow> Inl e
                | None \<Rightarrow> Inr ())) (\<lambda>_.
     to_lvm_metadata env args plan)))) = Inr rc"
    by blast
  from snd_bnd_Inr [OF 3] obtain st2 where s3: "snd (layer_run (stack_reserve_end_area (layer_tools env) CLIProgressHandler
                       st1 (plan_pe_newpos plan))) = Inr st2"
    and 4: "snd (bnd (emit Stack_deactivate) (\<lambda>_.
     bnd (lift (case deactivate env st2 of
                  Some e \<Rightarrow> Inl e
                | None \<Rightarrow> Inr ())) (\<lambda>_.
     to_lvm_metadata env args plan))) = Inr rc"
    by blast
  from 4 have 5: "snd (bnd (lift (case deactivate env st2 of
                  Some e \<Rightarrow> Inl e
                | None \<Rightarrow> Inr ())) (\<lambda>_.
     to_lvm_metadata env args plan)) = Inr rc"
    by (simp add: snd_bnd_emit)
  from snd_bnd_Inr [OF 5] obtain u2 where s5: "snd (lift (case deactivate env st2 of
                  Some e \<Rightarrow> Inl e
                | None \<Rightarrow> Inr ())) = Inr u2"
    and 6: "snd (to_lvm_metadata env args plan) = Inr rc"
    by blast
  note m = to_lvm_metadata_copy [OF 6]
  have "Pwrite (device args) (plan_pe_size plan) (plan_pe_newpos plan)
             \<in> set (fst (to_lvm_convert env args))"
    unfolding to_lvm_convert_def
    by (rule in_bnd_InrI [OF p], rule in_bnd_InrI [OF s1], rule in_bnd_InrI [OF s2],
        rule in_bnd_InrI [OF s3], rule in_bnd_emitI, rule in_bnd_InrI [OF s5], rule m)
  with p show ?thesis by blast
qed

lemma to_lvm_convert_prepare_fails:
  assumes "snd (to_lvm_prepare env args) = Inl e"
  shows "to_lvm_convert env args = (fst (to_lvm_prepare env args), Inl e)"
  using assms by (cases "to_lvm_prepare env args") (simp add: to_lvm_convert_def bnd_def)

lemma cmd_to_lvm_fst:
  "set (fst (cmd_to_lvm env args))
     \<subseteq> insert (Quiet_call (pvremove_cmd args) []) (set (fst (to_lvm_convert env args)))"
  by (auto simp: cmd_to_lvm_def fst_bnd snd_bnd io_simps split: sum.splits if_splits)

lemma cmd_to_lvm_snd_Inr:
  assumes "snd (cmd_to_lvm env args) = Inr rc"
  shows "snd (to_lvm_convert env args) = Inr rc"
    "set (fst (to_lvm_convert env args)) \<subseteq> set (fst (cmd_to_lvm env args))"
  using assms
  by (auto simp: cmd_to_lvm_def fst_bnd snd_bnd io_simps split: sum.splits if_splits)

lemma cmd_to_lvm_snd_Inl:
  assumes "snd (to_lvm_convert env args) = Inl e"
  shows "\<exists>e'. snd (cmd_to_lvm env args) = Inl e'"
  using assms
  by (auto simp: cmd_to_lvm_def fst_bnd snd_bnd io_simps split: sum.splits if_splits)

subsection \<open>The example run\<close>

lemmas to_lvm_defs =
  cmd_to_lvm_def to_lvm_convert_def to_lvm_prepare_def to_lvm_metadata_def to_lvm_install_def
  choose_vg_def choose_lvname_def lvm_geometry_def rozeros_table_def synth_table_def
  bytes_to_sector_def whitelisted_def ASCII_ALNUM_WHITELIST_def LVM_PE_SIZE_def filename_def
  pvremove_cmd_def

lemmas to_lvm_example_defs =
  to_lvm_defs lvm_env_with_def lvm_env_example_def args_example_def

lemma example_stack_reserve:
  "stack_reserve_end_area tools_succeed CLIProgressHandler [FS_layer ext4_100M] 100663296
     = ([Reserve_end_area_nonrec (FS_layer ext4_100M) 100663296],
        Inr [FS_layer (ext4_100M\<lparr>block_count := 24576\<rparr>)])"
  by (simp add: stack_example_defs ext4_100M_def)

lemma example_run_succeeds:
  "snd (cmd_to_lvm (lvm_env_with sb 104857600) args_example) = Inr 0"
  by (simp add: to_lvm_example_defs snd_bnd io_simps rethrow_as_simps
        example_stack_reserve Let_def)

lemma example_run_copy:
  "Pwrite ''/dev/sdb1'' 4194304 100663296
     \<in> set (fst (cmd_to_lvm (lvm_env_with sb 104857600) args_example))"
  by (simp add: to_lvm_example_defs snd_bnd fst_bnd io_simps rethrow_as_simps
        example_stack_reserve Let_def)

lemma example_run_unaligned:
  "cmd_to_lvm (lvm_env_with ''ext4'' 104857700) args_example
     = ([], Inl (AssertionFailed ''device.size() % 512 == 0''))"
  by (simp add: prod_eq_iff to_lvm_example_defs snd_bnd fst_bnd io_simps Let_def)

lemma example_prepare:
  "snd (to_lvm_prepare (lvm_env_with sb sz) args_example) =
     (if sz mod 512 = 0
      then Inr \<lparr>plan_vgname = ''vg1'', plan_join_name = [], plan_lvname = ''root'',
                plan_device_size = sz, plan_pe_size = 4194304,
                plan_pe_sectors = 8192, plan_pe_count = sz div 4194304 - 1,
                plan_pe_newpos = (sz div 4194304 - 1) * 4194304,
                plan_block_stack = [FS_layer ext4_100M]\<rparr>
      else Inl (AssertionFailed ''device.size() % 512 == 0''))"
  by (simp add: to_lvm_example_defs snd_bnd io_simps Let_def)

lemma example_env:
  "blockdev_getsize64 (lvm_env_with sb sz) = Some sz"
  "choose_vg (lvm_env_with sb sz) args_example = Inr (''vg1'', 4194304, [])"
  "device_exists (lvm_env_with sb sz)"
  "superblock_type (lvm_env_with sb sz) = sb"
  "cmd_ok (lvm_env_with sb sz) cmd"
  by (simp_all add: to_lvm_example_defs)

subsection \<open>A device that already is a physical volume\<close>

text \<open>
  Claim C1. On a device whose superblock type is \<open>LVM2_member\<close>, \<open>cmd_to_lvm\<close> does not
  refuse: it first runs \<open>pvremove -ff\<close> on the device. When that command fails the run
  ends with its error and nothing else has been done; otherwise the conversion goes on
  as for any other device.
\<close>

theorem cmd_to_lvm_on_physical_volume:
  assumes "device_exists env" and "superblock_type env = ''LVM2_member''"
  shows "cmd_to_lvm env args =
     (if cmd_ok env (pvremove_cmd args)
      then (Quiet_call (pvremove_cmd args) [] # fst (to_lvm_convert env args),
            snd (to_lvm_convert env args))
      else ([Quiet_call (pvremove_cmd args) []],
            Inl (RuntimeError (''Command failed: '' @ join_cmd (pvremove_cmd args)))))"
  using assms
  by (cases "to_lvm_convert env args")
     (simp add: cmd_to_lvm_def bnd_def check_def ret_def quiet_call_def)

theorem cmd_to_lvm_on_physical_volume_witness:
  "device_exists (lvm_env_with ''LVM2_member'' 104857600) \<and>
   superblock_type (lvm_env_with ''LVM2_member'' 104857600) = ''LVM2_member'' \<and>
   cmd_ok (lvm_env_with ''LVM2_member'' 104857600) (pvremove_cmd args_example) \<and>
   cmd_to_lvm (lvm_env_with ''LVM2_member'' 104857600) args_example =
     (Quiet_call (pvremove_cmd args_example) []
        # fst (to_lvm_convert (lvm_env_with ''LVM2_member'' 104857600) args_example),
      snd (to_lvm_convert (lvm_env_with ''LVM2_member'' 104857600) args_example))"
  using cmd_to_lvm_on_physical_volume [of "lvm_env_with ''LVM2_member'' 104857600" args_example]
  by (simp add: example_env)

text \<open>
  The example run on a physical volume returns 0: the LVM label is removed first, and the
  new metadata is written at the start of the device.
\<close>

theorem cmd_to_lvm_removes_lvm_label:
  "snd (cmd_to_lvm (lvm_env_with ''LVM2_member'' 104857600) args_example) = Inr 0
   \<and> hd (fst (cmd_to_lvm (lvm_env_with ''LVM2_member'' 104857600) args_example))
       = Quiet_call [''pvremove'', ''-ff'', ''--'', ''/dev/sdb1''] []
   \<and> Pwrite ''/dev/sdb1'' 4194304 0
       \<in> set (fst (cmd_to_lvm (lvm_env_with ''LVM2_member'' 104857600) args_example))"
  by (simp add: to_lvm_example_defs snd_bnd fst_bnd io_simps rethrow_as_simps
        example_stack_reserve Let_def)

subsection \<open>The extents\<close>

text \<open>
  Claim C4. The preparation of \<open>cmd_to_lvm\<close> computes \<open>pe_count = size div pe - 1\<close> and
  \<open>pe_newpos = pe_count * pe\<close>, and it ends well only if the size of the device is a
  multiple of 512 and \<open>pe\<close> is at least 4096; a run that returns has copied the first
  extent to \<open>pe_newpos\<close>. When the size is not a multiple of 512 or \<open>pe\<close> is below 4096
  the run fails, and it has done no more than the \<open>pvremove\<close> of a physical volume and
  what \<open>get_block_stack\<close> does: no check of the file system, no shrinking, no write.
\<close>

theorem cmd_to_lvm_geometry:
  "(snd (to_lvm_prepare env args) = Inr plan \<longrightarrow>
      plan_pe_count plan = plan_device_size plan div plan_pe_size plan - 1 \<and>
      plan_pe_newpos plan = plan_pe_count plan * plan_pe_size plan \<and>
      blockdev_getsize64 env = Some (plan_device_size plan) \<and>
      plan_device_size plan mod 512 = 0 \<and> 4096 \<le> plan_pe_size plan) \<and>
   (snd (cmd_to_lvm env args) = Inr rc \<longrightarrow>
      (\<exists>plan. snd (to_lvm_prepare env args) = Inr plan \<and>
         Pwrite (device args) (plan_pe_size plan) (plan_pe_newpos plan)
           \<in> set (fst (cmd_to_lvm env args)))) \<and>
   (blockdev_getsize64 env = Some sz \<and> choose_vg env args = Inr (vg, pe, jn) \<and>
      (sz mod 512 \<noteq> 0 \<or> pe < 4096) \<longrightarrow>
      (\<exists>e. snd (cmd_to_lvm env args) = Inl e) \<and>
      set (fst (cmd_to_lvm env args))
        \<subseteq> insert (Quiet_call (pvremove_cmd args) []) (set (fst (get_block_stack env))))"
proof (intro conjI impI)
  assume p: "snd (to_lvm_prepare env args) = Inr plan"
  note g = to_lvm_prepare_Inr [OF p]
  show "plan_pe_count plan = plan_device_size plan div plan_pe_size plan - 1"
    by (rule lvm_geometry_Inr(2) [OF g(4)])
  show "plan_pe_newpos plan = plan_pe_count plan * plan_pe_size plan"
    by (rule lvm_geometry_Inr(3) [OF g(4)])
  show "blockdev_getsize64 env = Some (plan_device_size plan)" by (rule g(1))
  show "plan_device_size plan mod 512 = 0" by (rule g(2))
  show "4096 \<le> plan_pe_size plan" by (rule lvm_geometry_Inr(4) [OF g(4)])
next
  assume r: "snd (cmd_to_lvm env args) = Inr rc"
  from to_lvm_convert_Inr [OF cmd_to_lvm_snd_Inr(1) [OF r]] cmd_to_lvm_snd_Inr(2) [OF r]
  show "\<exists>plan. snd (to_lvm_prepare env args) = Inr plan \<and>
         Pwrite (device args) (plan_pe_size plan) (plan_pe_newpos plan)
           \<in> set (fst (cmd_to_lvm env args))"
    by blast
next
  assume a: "blockdev_getsize64 env = Some sz \<and> choose_vg env args = Inr (vg, pe, jn) \<and>
      (sz mod 512 \<noteq> 0 \<or> pe < 4096)"
  then obtain e where e: "snd (to_lvm_prepare env args) = Inl e"
    using to_lvm_prepare_requires [of env sz args vg pe jn] by blast
  note c = to_lvm_convert_prepare_fails [OF e]
  from c have "snd (to_lvm_convert env args) = Inl e" by simp
  then show "\<exists>e. snd (cmd_to_lvm env args) = Inl e" by (rule cmd_to_lvm_snd_Inl)
  from c have "fst (to_lvm_convert env args) = fst (to_lvm_prepare env args)" by simp
  with cmd_to_lvm_fst [of env args] to_lvm_prepare_events [of env args]
  show "set (fst (cmd_to_lvm env args))
        \<subseteq> insert (Quiet_call (pvremove_cmd args) []) (set (fst (get_block_stack env)))"
    by auto
qed

theorem cmd_to_lvm_geometry_witness:
  "snd (to_lvm_prepare (lvm_env_with ''ext4'' 104857600) args_example)
     = Inr \<lparr>plan_vgname = ''vg1'', plan_join_name = [], plan_lvname = ''root'',
            plan_device_size = 104857600, plan_pe_size = 4194304,
            plan_pe_sectors = 8192, plan_pe_count = 24, plan_pe_newpos = 100663296,
            plan_block_stack = [FS_layer ext4_100M]\<rparr> \<and>
   (24 :: u64) = 104857600 div 4194304 - 1 \<and> (100663296 :: u64) = 24 * 4194304 \<and>
   snd (cmd_to_lvm (lvm_env_with ''ext4'' 104857600) args_example) = Inr 0 \<and>
   Pwrite ''/dev/sdb1'' 4194304 100663296
     \<in> set (fst (cmd_to_lvm (lvm_env_with ''ext4'' 104857600) args_example)) \<and>
   blockdev_getsize64 (lvm_env_with ''ext4'' 104857700) = Some 104857700 \<and>
   choose_vg (lvm_env_with ''ext4'' 104857700) args_example = Inr (''vg1'', 4194304, []) \<and>
   (104857700 :: u64) mod 512 \<noteq> 0 \<and>
   cmd_to_lvm (lvm_env_with ''ext4'' 104857700) args_example
     = ([], Inl (AssertionFailed ''device.size() % 512 == 0''))"
  using cmd_to_lvm_geometry
          [where env = "lvm_env_with ''ext4'' 104857600" and args = args_example and rc = 0
             and plan = "\<lparr>plan_vgname = ''vg1'', plan_join_name = [], plan_lvname = ''root'',
                plan_device_size = 104857600, plan_pe_size = 4194304,
                plan_pe_sectors = 8192, plan_pe_count = 24, plan_pe_newpos = 100663296,
                plan_block_stack = [FS_layer ext4_100M]\<rparr>"
             and sz = 104857600 and vg = "''vg1''" and pe = 4194304 and jn = "[]"]
        cmd_to_lvm_geometry
          [where env = "lvm_env_with ''ext4'' 104857700" and args = args_example and rc = 0
             and plan = "\<lparr>plan_vgname = ''vg1'', plan_join_name = [], plan_lvname = ''root'',
                plan_device_size = 104857600, plan_pe_size = 4194304,
                plan_pe_sectors = 8192, plan_pe_count = 24, plan_pe_newpos = 100663296,
                plan_block_stack = [FS_layer ext4_100M]\<rparr>"
             and sz = 104857700 and vg = "''vg1''"
             and pe = 4194304 and jn = "[]"]
  by (simp add: example_prepare example_env example_run_succeeds example_run_copy
        example_run_unaligned)

text \<open>
  A device of 100 MiB and 512 bytes is not a multiple of the extent size of 4 MiB, and
  the example run on it returns 0 after copying the first extent.
\<close>

theorem cmd_to_lvm_size_not_multiple_of_pe:
  "snd (cmd_to_lvm (lvm_env_with ''ext4'' 104858112) args_example) = Inr 0
   \<and> (104858112 :: u64) mod 4194304 = 512
   \<and> Pwrite ''/dev/sdb1'' 4194304 100663296
       \<in> set (fst (cmd_to_lvm (lvm_env_with ''ext4'' 104858112) args_example))"
  by (simp add: to_lvm_example_defs snd_bnd fst_bnd io_simps rethrow_as_simps
        example_stack_reserve Let_def)

subsection \<open>The synthetic device\<close>

lemma snd_bnd_lift: "snd (bnd (lift r) f) = (case r of Inl e \<Rightarrow> Inl e | Inr x \<Rightarrow> snd (f x))"
  by (simp add: snd_bnd io_simps)

lemma snd_bnd_quiet_call:
  "snd (bnd (quiet_call env cmd table) f) =
     (if cmd_ok env cmd then snd (f ())
      else Inl (RuntimeError (''Command failed: '' @ join_cmd cmd)))"
  by (simp add: snd_bnd io_simps)

lemma snd_bnd_remove_stale: "snd (bnd (remove_stale devs) f) = snd (f ())"
  by (simp add: snd_bnd io_simps)

lemma to_lvm_metadata_succeeds:
  assumes "snd (to_lvm_metadata env args plan) = Inr rc"
    and "rozeros_name = ''rozeros-'' @ uuid_generate env 1"
    and "synth_name = ''synthetic-'' @ uuid_generate env 1"
    and "synth_full_name = ''/dev/mapper/'' @ synth_name"
    and "lvm_cfg = ''--config='' @ [CHR 0x27] @ lvm_config synth_full_name @ [CHR 0x27]"
  shows "open_excl_copy_ok env \<and> pread_copy_ok env \<and> pwrite_copy_ok env \<and>
    (\<exists>rozeros synth.
       rozeros_table (plan_device_size plan) (plan_pe_size plan) = Inr rozeros \<and>
       cmd_ok env [''dmsetup'', ''create'', ''--readonly'', ''--'', rozeros_name] \<and>
       synth_table (device args) rozeros_name (plan_device_size plan) (plan_pe_size plan)
         = Inr synth \<and>
       cmd_ok env [''dmsetup'', ''create'', ''--'', synth_name] \<and>
       synth_exists env \<and>
       cmd_ok env [''lvm'', ''pvcreate'', lvm_cfg, ''--restorefile'', cfgf_path env,
                   ''--uuid'', uuid_generate env 2, ''--zero'', ''y'', ''--'', synth_full_name] \<and>
       cmd_ok env [''lvm'', ''vgcfgrestore'', lvm_cfg, ''--file'', cfgf_path env, ''--'',
                   plan_vgname plan])"
  using assms(1) unfolding to_lvm_metadata_def Let_def assms(2-5) 
    snd_bnd_emit snd_bnd_check snd_bnd_lift snd_bnd_quiet_call snd_bnd_remove_stale
  by (simp split: sum.splits if_splits)


lemma fst_bnd_emit: "fst (bnd (emit ev) f) = ev # fst (f ())"
  by (simp add: fst_bnd io_simps)

lemma fst_bnd_check: "b \<Longrightarrow> fst (bnd (check b e) f) = fst (f ())"
  by (simp add: fst_bnd io_simps)

lemma fst_bnd_lift: "fst (bnd (lift (Inr x)) f) = fst (f x)"
  by (simp add: fst_bnd io_simps)

lemma fst_bnd_quiet_call:
  "cmd_ok env cmd \<Longrightarrow> fst (bnd (quiet_call env cmd table) f) = Quiet_call cmd table # fst (f ())"
  by (simp add: fst_bnd io_simps)

lemma fst_bnd_remove_stale:
  "fst (bnd (remove_stale devs) f) = fst (remove_stale devs) @ fst (f ())"
  by (simp add: fst_bnd io_simps)

lemma to_lvm_metadata_Inr:
  assumes "snd (to_lvm_metadata env args plan) = Inr rc"
    and "rozeros_name = ''rozeros-'' @ uuid_generate env 1"
    and "synth_name = ''synthetic-'' @ uuid_generate env 1"
    and "synth_full_name = ''/dev/mapper/'' @ synth_name"
    and "lvm_cfg = ''--config='' @ [CHR 0x27] @ lvm_config synth_full_name @ [CHR 0x27]"
  shows "\<exists>rozeros synth.
     rozeros_table (plan_device_size plan) (plan_pe_size plan) = Inr rozeros \<and>
     synth_table (device args) rozeros_name (plan_device_size plan) (plan_pe_size plan) = Inr synth \<and>
     Quiet_call [''dmsetup'', ''create'', ''--readonly'', ''--'', rozeros_name] (render_table rozeros)
       \<in> set (fst (to_lvm_metadata env args plan)) \<and>
     Quiet_call [''dmsetup'', ''create'', ''--'', synth_name] (render_table synth)
       \<in> set (fst (to_lvm_metadata env args plan)) \<and>
     Quiet_call [''lvm'', ''pvcreate'', lvm_cfg, ''--restorefile'', cfgf_path env,
                 ''--uuid'', uuid_generate env 2, ''--zero'', ''y'', ''--'', synth_full_name] []
       \<in> set (fst (to_lvm_metadata env args plan)) \<and>
     Quiet_call [''lvm'', ''vgcfgrestore'', lvm_cfg, ''--file'', cfgf_path env, ''--'',
                 plan_vgname plan] []
       \<in> set (fst (to_lvm_metadata env args plan))"
proof -
  from to_lvm_metadata_succeeds [OF assms]
  obtain rozeros synth where ok:
    "open_excl_copy_ok env" "pread_copy_ok env" "pwrite_copy_ok env"
    "rozeros_table (plan_device_size plan) (plan_pe_size plan) = Inr rozeros"
    "cmd_ok env [''dmsetup'', ''create'', ''--readonly'', ''--'', rozeros_name]"
    "synth_table (device args) rozeros_name (plan_device_size plan) (plan_pe_size plan)
       = Inr synth"
    "cmd_ok env [''dmsetup'', ''create'', ''--'', synth_name]"
    "synth_exists env"
    "cmd_ok env [''lvm'', ''pvcreate'', lvm_cfg, ''--restorefile'', cfgf_path env,
                 ''--uuid'', uuid_generate env 2, ''--zero'', ''y'', ''--'', synth_full_name]"
    "cmd_ok env [''lvm'', ''vgcfgrestore'', lvm_cfg, ''--file'', cfgf_path env, ''--'',
                 plan_vgname plan]"
    by blast
  have ev: "fst (to_lvm_metadata env args plan) =
     [Open_excl (device args), Pread (device args) (plan_pe_size plan) 0,
      Pwrite (device args) (plan_pe_size plan) (plan_pe_newpos plan)] @
     fst (remove_stale (stale_dm_devices env)) @
     [Quiet_call [''dmsetup'', ''create'', ''--readonly'', ''--'', rozeros_name]
        (render_table rozeros),
      Quiet_call [''dmsetup'', ''create'', ''--'', synth_name] (render_table synth),
      Write_file (cfgf_path env)
        (vg_config_text (plan_vgname plan) (uuid_generate env 3) (plan_pe_sectors plan)
           (uuid_generate env 2) (plan_pe_count plan) 2048 2048 (plan_lvname plan)
           (uuid_generate env 4)),
      Quiet_call [''lvm'', ''pvcreate'', lvm_cfg, ''--restorefile'', cfgf_path env,
                  ''--uuid'', uuid_generate env 2, ''--zero'', ''y'', ''--'', synth_full_name] [],
      Quiet_call [''lvm'', ''vgcfgrestore'', lvm_cfg, ''--file'', cfgf_path env, ''--'',
                  plan_vgname plan] []] @
     fst (to_lvm_install env args plan synth_name rozeros_name synth_full_name)"
    unfolding to_lvm_metadata_def Let_def
    using ok unfolding assms(2-5)
    by (simp add: fst_bnd_emit fst_bnd_check fst_bnd_lift fst_bnd_quiet_call
          fst_bnd_remove_stale)
  have "Quiet_call [''dmsetup'', ''create'', ''--readonly'', ''--'', rozeros_name] (render_table rozeros)
       \<in> set (fst (to_lvm_metadata env args plan))"
     "Quiet_call [''dmsetup'', ''create'', ''--'', synth_name] (render_table synth)
       \<in> set (fst (to_lvm_metadata env args plan))"
     "Quiet_call [''lvm'', ''pvcreate'', lvm_cfg, ''--restorefile'', cfgf_path env,
                 ''--uuid'', uuid_generate env 2, ''--zero'', ''y'', ''--'', synth_full_name] []
       \<in> set (fst (to_lvm_metadata env args plan))"
     "Quiet_call [''lvm'', ''vgcfgrestore'', lvm_cfg, ''--file'', cfgf_path env, ''--'',
                 plan_vgname plan] []
       \<in> set (fst (to_lvm_metadata env args plan))"
    by (simp_all only: ev set_append list.set insert_iff Un_iff simp_thms)
  with ok(4,6) show ?thesis by blast
qed


lemma synth_table_Inr:
  assumes "synth_table dev rozeros_name sz pe = Inr synth"
  shows "synth = [(0, pe div 512, Linear dev 0),
                  (pe div 512, (sz - pe) div 512, Linear (''/dev/mapper/'' @ rozeros_name) 0)]"
    and "pe mod 512 = 0" and "(sz - pe) mod 512 = 0"
  using assms
  by (auto simp: synth_table_def bytes_to_sector_def split: if_splits sum.splits)

lemma rozeros_table_Inr:
  assumes "rozeros_table sz pe = Inr rozeros"
  shows "rozeros = [(0, (sz - pe) div 512, Error_target)]"
  using assms
  by (auto simp: rozeros_table_def bytes_to_sector_def split: if_splits sum.splits)

lemma unat_div_512: "unat ((x :: u64) div 512) = unat x div 512"
  by (simp add: unat_div)

lemma synth_table_sectors:
  assumes "pe \<le> sz" and "pe mod 512 = 0"
  shows "table_sectors [(0, pe div 512, Linear dev 0),
                        (pe div 512, (sz - pe) div 512, Linear rz 0)] = unat (sz :: u64) div 512"
proof -
  from assms(2) have "unat pe mod 512 = 0" by (simp add: unat_mod flip: unat_eq_zero)
  then obtain q where q: "unat pe = 512 * q" by (auto simp: mod_eq_0_iff_dvd)
  from assms(1) have le: "unat pe \<le> unat sz" by (simp add: word_le_nat_alt)
  have s: "unat (sz - pe) = unat sz - unat pe" using assms(1) by (simp add: unat_sub)
  from le obtain k where k: "unat sz = 512 * q + k" unfolding q by (metis le_Suc_ex)
  have "unat pe div 512 + (unat sz - unat pe) div 512 = unat sz div 512"
    unfolding q k by simp
  then show ?thesis by (simp add: table_sectors_def unat_div_512 s)
qed

lemma synth_table_map:
  fixes pe sz :: u64
  assumes "t = [(0, pe div 512, Linear dev 0), (pe div 512, (sz - pe) div 512, Linear rz 0)]"
  shows "s < unat pe div 512 \<Longrightarrow> dm_map t s = Some (Some (dev, s))"
    and "unat pe div 512 \<le> s \<Longrightarrow> s < unat pe div 512 + unat (sz - pe) div 512 \<Longrightarrow>
           dm_map t s = Some (Some (rz, s - unat pe div 512))"
    and "unat pe div 512 + unat (sz - pe) div 512 \<le> s \<Longrightarrow> dm_map t s = None"
  by (simp_all add: assms unat_div_512)

lemma rozeros_table_map:
  "dm_map [(0, (d :: u64) div 512, Error_target)] s = (if s < unat d div 512 then Some None else None)"
  by (simp add: unat_div_512)

lemma devices_filter_accepts:
  "filter_accepts (devices_filter synth_full_name) path \<longleftrightarrow> path = synth_full_name"
  by (simp add: devices_filter_def)

lemma to_lvm_convert_metadata:
  assumes "snd (to_lvm_convert env args) = Inr rc"
  shows "\<exists>plan. snd (to_lvm_prepare env args) = Inr plan \<and>
           snd (to_lvm_metadata env args plan) = Inr rc \<and>
           set (fst (to_lvm_metadata env args plan)) \<subseteq> set (fst (to_lvm_convert env args))"
  using assms unfolding to_lvm_convert_def
  by (auto simp: snd_bnd fst_bnd io_simps rethrow_as_simps split: sum.splits if_splits)



lemma cmd_to_lvm_metadata:
  assumes "snd (cmd_to_lvm env args) = Inr rc"
  shows "\<exists>plan. snd (to_lvm_prepare env args) = Inr plan \<and>
           snd (to_lvm_metadata env args plan) = Inr rc \<and>
           set (fst (to_lvm_metadata env args plan)) \<subseteq> set (fst (cmd_to_lvm env args))"
  using to_lvm_convert_metadata [OF cmd_to_lvm_snd_Inr(1) [OF assms]]
    cmd_to_lvm_snd_Inr(2) [OF assms]
  by blast

lemma to_string_example:
  "to_string 0 = ''0''" "to_string 8192 = ''8192''" "to_string 196608 = ''196608''"
  by (simp_all add: to_string.simps digit_char_def)

lemma lvm_config_text:
  "lvm_config synth_full_name =
     ''devices{filter=['' @
     ([CHR 0x22] @ ''a|^'' @ synth_full_name @ ''$|'' @ [CHR 0x22] @ '','' @
      [CHR 0x22] @ ''r|.*|'' @ [CHR 0x22]) @
     '']}activation{verify_udev_operations=1}''"
  "render_rules (devices_filter synth_full_name) =
     [CHR 0x22] @ ''a|^'' @ synth_full_name @ ''$|'' @ [CHR 0x22] @ '','' @
     [CHR 0x22] @ ''r|.*|'' @ [CHR 0x22]"
  by (simp_all add: lvm_config_def devices_filter_def)

text \<open>
  Claim C2. In a run of \<open>cmd_to_lvm\<close> that returns, the synthetic device made with
  \<open>dmsetup create\<close> has two targets: the first \<open>pe\<close> bytes are a linear mapping of the
  first \<open>pe\<close> bytes of the device itself, and the \<open>size - pe\<close> bytes after them are a
  linear mapping of the read-only \<open>rozeros\<close> device, whose single target is \<open>error\<close>.
  There is no tail. When \<open>pe \<le> size\<close> the synthetic device has the size of the device.
  \<open>pvcreate\<close> and \<open>vgcfgrestore\<close> are run with the argument
  \<open>--config='devices{filter=[...]}activation{verify_udev_operations=1}'\<close>, whose filter
  is the text of two rules: accept the path of the synthetic device, reject every path.
  Under these rules the path of the synthetic device is accepted and no other.
\<close>

theorem cmd_to_lvm_synthetic_device:
  assumes "snd (cmd_to_lvm env args) = Inr rc"
    and "rozeros_name = ''rozeros-'' @ uuid_generate env 1"
    and "synth_name = ''synthetic-'' @ uuid_generate env 1"
    and "synth_full_name = ''/dev/mapper/'' @ synth_name"
    and "filter_text = [CHR 0x22] @ ''a|^'' @ synth_full_name @ ''$|'' @ [CHR 0x22] @ '','' @
                       [CHR 0x22] @ ''r|.*|'' @ [CHR 0x22]"
    and "lvm_cfg = ''--config='' @ [CHR 0x27] @
                   ''devices{filter=['' @ filter_text @
                   '']}activation{verify_udev_operations=1}'' @ [CHR 0x27]"
  shows "\<exists>plan rozeros synth.
     snd (to_lvm_prepare env args) = Inr plan \<and>
     rozeros = [(0, (plan_device_size plan - plan_pe_size plan) div 512, Error_target)] \<and>
     synth = [(0, plan_pe_size plan div 512, Linear (device args) 0),
              (plan_pe_size plan div 512, (plan_device_size plan - plan_pe_size plan) div 512,
               Linear (''/dev/mapper/'' @ rozeros_name) 0)] \<and>
     Quiet_call [''dmsetup'', ''create'', ''--readonly'', ''--'', rozeros_name]
         (render_table rozeros) \<in> set (fst (cmd_to_lvm env args)) \<and>
     Quiet_call [''dmsetup'', ''create'', ''--'', synth_name]
         (render_table synth) \<in> set (fst (cmd_to_lvm env args)) \<and>
     Quiet_call [''lvm'', ''pvcreate'', lvm_cfg, ''--restorefile'', cfgf_path env,
                 ''--uuid'', uuid_generate env 2, ''--zero'', ''y'', ''--'', synth_full_name] []
       \<in> set (fst (cmd_to_lvm env args)) \<and>
     Quiet_call [''lvm'', ''vgcfgrestore'', lvm_cfg, ''--file'', cfgf_path env, ''--'',
                 plan_vgname plan] []
       \<in> set (fst (cmd_to_lvm env args)) \<and>
     (plan_pe_size plan \<le> plan_device_size plan \<longrightarrow>
        table_sectors synth = unat (plan_device_size plan) div 512) \<and>
     (\<forall>s. dm_map synth s =
        (if s < unat (plan_pe_size plan) div 512 then Some (Some (device args, s))
         else if s < unat (plan_pe_size plan) div 512
                      + unat (plan_device_size plan - plan_pe_size plan) div 512
         then Some (Some (''/dev/mapper/'' @ rozeros_name, s - unat (plan_pe_size plan) div 512))
         else None)) \<and>
     (\<forall>s. dm_map rozeros s =
        (if s < unat (plan_device_size plan - plan_pe_size plan) div 512 then Some None
         else None)) \<and>
     filter_text = render_rules (devices_filter synth_full_name) \<and>
     (\<forall>path. filter_accepts (devices_filter synth_full_name) path \<longleftrightarrow> path = synth_full_name)"
proof -
  have cfg: "lvm_cfg = ''--config='' @ [CHR 0x27] @ lvm_config synth_full_name @ [CHR 0x27]"
    unfolding assms(6) assms(5) lvm_config_text(1) by simp
  have ft: "filter_text = render_rules (devices_filter synth_full_name)"
    unfolding assms(5) lvm_config_text(2) ..
  from cmd_to_lvm_metadata [OF assms(1)] obtain plan where
    p: "snd (to_lvm_prepare env args) = Inr plan"
    and m: "snd (to_lvm_metadata env args plan) = Inr rc"
    and sub: "set (fst (to_lvm_metadata env args plan)) \<subseteq> set (fst (cmd_to_lvm env args))"
    by blast
  let ?sz = "plan_device_size plan" and ?pe = "plan_pe_size plan"
  from to_lvm_metadata_Inr [OF m assms(2-4) cfg] obtain rozeros synth where
    rz: "rozeros_table ?sz ?pe = Inr rozeros"
    and sy: "synth_table (device args) rozeros_name ?sz ?pe = Inr synth"
    and ev: "Quiet_call [''dmsetup'', ''create'', ''--readonly'', ''--'', rozeros_name]
         (render_table rozeros) \<in> set (fst (to_lvm_metadata env args plan))"
      "Quiet_call [''dmsetup'', ''create'', ''--'', synth_name]
         (render_table synth) \<in> set (fst (to_lvm_metadata env args plan))"
      "Quiet_call [''lvm'', ''pvcreate'', lvm_cfg, ''--restorefile'', cfgf_path env,
                 ''--uuid'', uuid_generate env 2, ''--zero'', ''y'', ''--'', synth_full_name] []
       \<in> set (fst (to_lvm_metadata env args plan))"
      "Quiet_call [''lvm'', ''vgcfgrestore'', lvm_cfg, ''--file'', cfgf_path env, ''--'',
                 plan_vgname plan] []
       \<in> set (fst (to_lvm_metadata env args plan))"
    by blast
  note r = rozeros_table_Inr [OF rz]
  note s = synth_table_Inr [OF sy]
  have size: "?pe \<le> ?sz \<longrightarrow> table_sectors synth = unat ?sz div 512"
    unfolding s(1) using synth_table_sectors [OF _ s(2)] by blast
  have map1: "\<forall>s. dm_map synth s =
        (if s < unat ?pe div 512 then Some (Some (device args, s))
         else if s < unat ?pe div 512 + unat (?sz - ?pe) div 512
         then Some (Some (''/dev/mapper/'' @ rozeros_name, s - unat ?pe div 512))
         else None)"
    using synth_table_map [OF s(1)] by (simp add: not_less)
  have map2: "\<forall>s. dm_map rozeros s =
        (if s < unat (?sz - ?pe) div 512 then Some None else None)"
    unfolding r by (simp only: rozeros_table_map simp_thms)
  from p r s(1) ev sub size map1 map2 ft devices_filter_accepts [of synth_full_name]
  show ?thesis by blast
qed

lemma example_names:
  "uuid_generate (lvm_env_with sb sz) 1 = ''7d9c2a44-1f3b-4e0a-8c55-90ab12cd34ef''"
  "uuid_generate (lvm_env_with sb sz) (Suc 0) = ''7d9c2a44-1f3b-4e0a-8c55-90ab12cd34ef''"
  by (simp_all add: lvm_env_with_def lvm_env_example_def example_uuid_def)

lemma example_uuid_2:
  "uuid_generate (lvm_env_with sb sz) 2 = ''3f2504e0-4f89-41d3-9a0c-0305e82c3301''"
  "cfgf_path (lvm_env_with sb sz) = ''/tmp/vgcfg_4242.vgcfg''"
  by (simp_all add: lvm_env_with_def lvm_env_example_def example_uuid_def)

theorem cmd_to_lvm_synthetic_device_witness:
  "snd (cmd_to_lvm (lvm_env_with ''ext4'' 104857600) args_example) = Inr 0 \<and>
   Quiet_call [''dmsetup'', ''create'', ''--'', ''synthetic-7d9c2a44-1f3b-4e0a-8c55-90ab12cd34ef'']
     (render_table
        [(0, 8192, Linear ''/dev/sdb1'' 0),
         (8192, 196608, Linear ''/dev/mapper/rozeros-7d9c2a44-1f3b-4e0a-8c55-90ab12cd34ef'' 0)])
     \<in> set (fst (cmd_to_lvm (lvm_env_with ''ext4'' 104857600) args_example)) \<and>
   Quiet_call [''lvm'', ''pvcreate'',
               ''--config='' @ [CHR 0x27] @ ''devices{filter=['' @ [CHR 0x22] @
                 ''a|^/dev/mapper/synthetic-7d9c2a44-1f3b-4e0a-8c55-90ab12cd34ef$|'' @ [CHR 0x22] @
                 '','' @ [CHR 0x22] @ ''r|.*|'' @ [CHR 0x22] @
                 '']}activation{verify_udev_operations=1}'' @ [CHR 0x27],
               ''--restorefile'', ''/tmp/vgcfg_4242.vgcfg'',
               ''--uuid'', ''3f2504e0-4f89-41d3-9a0c-0305e82c3301'', ''--zero'', ''y'', ''--'',
               ''/dev/mapper/synthetic-7d9c2a44-1f3b-4e0a-8c55-90ab12cd34ef''] []
     \<in> set (fst (cmd_to_lvm (lvm_env_with ''ext4'' 104857600) args_example)) \<and>
   table_sectors
        [(0, 8192, Linear ''/dev/sdb1'' 0),
         (8192, 196608, Linear ''/dev/mapper/rozeros-7d9c2a44-1f3b-4e0a-8c55-90ab12cd34ef'' 0)]
     = 204800 \<and>
   filter_accepts (devices_filter ''/dev/mapper/synthetic-7d9c2a44-1f3b-4e0a-8c55-90ab12cd34ef'')
     ''/dev/mapper/synthetic-7d9c2a44-1f3b-4e0a-8c55-90ab12cd34ef'' \<and>
   \<not> filter_accepts (devices_filter ''/dev/mapper/synthetic-7d9c2a44-1f3b-4e0a-8c55-90ab12cd34ef'')
     ''/dev/sdb1''"
proof -
  let ?env = "lvm_env_with ''ext4'' 104857600"
  let ?synth_full = "''/dev/mapper/'' @ ''synthetic-'' @ uuid_generate ?env 1"
  let ?cfg = "''--config='' @ [CHR 0x27] @
                   ''devices{filter=['' @
                   ([CHR 0x22] @ ''a|^'' @ ?synth_full @ ''$|'' @ [CHR 0x22] @ '','' @
                       [CHR 0x22] @ ''r|.*|'' @ [CHR 0x22]) @
                   '']}activation{verify_udev_operations=1}'' @ [CHR 0x27]"
  have run: "snd (cmd_to_lvm ?env args_example) = Inr 0" by (rule example_run_succeeds)
  from cmd_to_lvm_synthetic_device [OF run refl refl refl refl refl]
  obtain plan synth where
    p: "snd (to_lvm_prepare ?env args_example) = Inr plan"
    and s: "synth = [(0, plan_pe_size plan div 512, Linear (device args_example) 0),
              (plan_pe_size plan div 512, (plan_device_size plan - plan_pe_size plan) div 512,
               Linear (''/dev/mapper/'' @ ''rozeros-'' @ uuid_generate ?env 1) 0)]"
    and ev: "Quiet_call [''dmsetup'', ''create'', ''--'', ''synthetic-'' @ uuid_generate ?env 1]
         (render_table synth) \<in> set (fst (cmd_to_lvm ?env args_example))"
    and pv: "Quiet_call [''lvm'', ''pvcreate'', ?cfg, ''--restorefile'', cfgf_path ?env,
                 ''--uuid'', uuid_generate ?env 2, ''--zero'', ''y'', ''--'', ?synth_full] []
       \<in> set (fst (cmd_to_lvm ?env args_example))"
    and size: "plan_pe_size plan \<le> plan_device_size plan \<longrightarrow>
        table_sectors synth = unat (plan_device_size plan) div 512"
    and f: "\<forall>path. filter_accepts (devices_filter ?synth_full) path \<longleftrightarrow> path = ?synth_full"
    by blast
  from p have plan: "plan_device_size plan = 104857600" "plan_pe_size plan = 4194304"
    by (auto simp: example_prepare)
  have s': "synth = [(0, 8192, Linear ''/dev/sdb1'' 0),
         (8192, 196608, Linear ''/dev/mapper/rozeros-7d9c2a44-1f3b-4e0a-8c55-90ab12cd34ef'' 0)]"
    unfolding s plan by (simp add: example_names args_example_def)
  from run ev pv size f show ?thesis
    unfolding s' plan by (simp add: example_names example_uuid_2)
qed

text \<open>
  In the example run the table of the synthetic device is made of a head of 8192 sectors
  that is the start of \<open>/dev/sdb1\<close> itself and of 196608 error sectors: what is written to
  sector 0 of the synthetic device is written to sector 0 of \<open>/dev/sdb1\<close>, there is no
  tail, and the middle is not the \<open>size - 2 * pe\<close> bytes, which are 188416 sectors.
\<close>

theorem cmd_to_lvm_synthetic_head_on_device:
  "Quiet_call [''dmsetup'', ''create'', ''--'', ''synthetic-7d9c2a44-1f3b-4e0a-8c55-90ab12cd34ef'']
     (''0 8192 linear /dev/sdb1 0'' @ [CHR 0x0A] @
      ''8192 196608 linear /dev/mapper/rozeros-7d9c2a44-1f3b-4e0a-8c55-90ab12cd34ef 0'' @ [CHR 0x0A])
     \<in> set (fst (cmd_to_lvm (lvm_env_with ''ext4'' 104857600) args_example)) \<and>
   synth_table ''/dev/sdb1'' ''rozeros-7d9c2a44-1f3b-4e0a-8c55-90ab12cd34ef'' 104857600 4194304
     = Inr [(0, 8192, Linear ''/dev/sdb1'' 0),
            (8192, 196608, Linear ''/dev/mapper/rozeros-7d9c2a44-1f3b-4e0a-8c55-90ab12cd34ef'' 0)] \<and>
   dm_map [(0, 8192, Linear ''/dev/sdb1'' 0),
           (8192, 196608, Linear ''/dev/mapper/rozeros-7d9c2a44-1f3b-4e0a-8c55-90ab12cd34ef'' 0)] 0
     = Some (Some (''/dev/sdb1'', 0)) \<and>
   (104857600 - 2 * 4194304) div 512 = (188416 :: u64)"
  by (simp add: to_lvm_example_defs snd_bnd fst_bnd io_simps rethrow_as_simps
        example_stack_reserve Let_def example_uuid_def render_table_def to_string_example)

section \<open>to-bcache on a device that already is a bcache device\<close>

lemma BlockDevice_found: "find_device env path = Some d \<Longrightarrow> BlockDevice env path = ret d"
  by (simp add: BlockDevice_def)

lemma bnd_ret: "bnd (ret x) f = f x"
  by (cases "f x") (simp add: bnd_def ret_def)

lemma bnd_lift_Inr: "bnd (lift (Inr x)) f = f x"
  by (cases "f x") (simp add: bnd_def lift_def)

text \<open>
  Claim C10. On a device that already carries a bcache superblock, the \<open>to-bcache\<close>
  command returns 1 and has made no event: no requirement is checked, no conversion is
  chosen and nothing is written. This holds for the branch of \<open>main\<close> and for
  \<open>cmd_to_bcache\<close>.
\<close>

theorem to_bcache_existing_superblock:
  assumes "find_device env dev = Some d" and "has_bcache_superblock d = Inr True"
  shows "main_to_bcache env args (dev # rest) = ([], Inr 1) \<and>
         (2 \<le> length argv \<and> dev \<noteq> [] \<and>
          device_path (parse_arguments (tl argv)
                         \<lparr>device_path = [], debug_option = False, join_option = [],
                          maintboot_option = False\<rparr>) = dev
          \<longrightarrow> cmd_to_bcache env argv = ([], Inr 1))"
proof -
  have guard: "\<And>g. bnd (BlockDevice env dev) (\<lambda>d.
                 bnd (lift (has_bcache_superblock d)) (\<lambda>has.
                 if has then ret 1 else g has)) = ([], Inr (1 :: int))"
    using assms by (simp add: BlockDevice_found bnd_ret bnd_lift_Inr) (simp add: ret_def)
  have "main_to_bcache env args (dev # rest) = ([], Inr 1)"
    unfolding main_to_bcache_def list.case by (rule guard)
  moreover have "cmd_to_bcache env argv = ([], Inr 1)"
    if "2 \<le> length argv" and "dev \<noteq> []"
      and "device_path (parse_arguments (tl argv)
                         \<lparr>device_path = [], debug_option = False, join_option = [],
                          maintboot_option = False\<rparr>) = dev"
    using that unfolding cmd_to_bcache_def Let_def by (simp only: guard) simp
  ultimately show ?thesis by blast
qed

lemma bcache_dev_example_has_superblock:
  "has_bcache_superblock bcache_dev_example = Inr True"
  using length_BCACHE_MAGIC
  by (simp add: has_bcache_superblock_def size_dev_def pread_def bcache_dev_example_def)

theorem to_bcache_existing_superblock_witness:
  "find_device bcache_env_example ''/dev/sdb1'' = Some bcache_dev_example \<and>
   has_bcache_superblock bcache_dev_example = Inr True \<and>
   main_to_bcache bcache_env_example args_example [''/dev/sdb1''] = ([], Inr 1) \<and>
   device_path (parse_arguments (tl [''blocks'', ''--debug'', ''--join'', ''cset'', ''/dev/sdb1''])
                  \<lparr>device_path = [], debug_option = False, join_option = [],
                   maintboot_option = False\<rparr>) = ''/dev/sdb1'' \<and>
   cmd_to_bcache bcache_env_example [''blocks'', ''--debug'', ''--join'', ''cset'', ''/dev/sdb1'']
     = ([], Inr 1)"
  using to_bcache_existing_superblock
          [where env = bcache_env_example and dev = "''/dev/sdb1''" and d = bcache_dev_example
             and args = args_example and rest = "[]"
             and argv = "[''blocks'', ''--debug'', ''--join'', ''cset'', ''/dev/sdb1'']"]
        bcache_dev_example_has_superblock
  by (simp add: bcache_env_example_def)

text \<open>Without the superblock the example run goes on to the conversion of a partition.\<close>

lemma zeros_not_BCACHE_MAGIC: "replicate 16 (0 :: u8) \<noteq> BCACHE_MAGIC"
proof
  assume e: "replicate 16 (0 :: u8) = BCACHE_MAGIC"
  have "replicate 16 (0 :: u8) ! 0 = 0" by simp
  moreover have "BCACHE_MAGIC ! 0 = 198" by (simp add: BCACHE_MAGIC_def)
  ultimately show False unfolding e by simp
qed

lemma to_bcache_example_converts:
  "main_to_bcache
     (bcache_env_example\<lparr>find_device :=
        (\<lambda>path. Some (bcache_dev_example\<lparr>content := replicate 16384 0\<rparr>))\<rparr>)
     args_example [''/dev/sdb1''] = ([Pwrite ''/dev/sdb1'' 8192 0], Inr 0)"
  using zeros_not_BCACHE_MAGIC
  by (simp add: main_to_bcache_def BlockDevice_def bnd_def ret_def lift_def check_def
        has_bcache_superblock_def size_dev_def pread_def bcache_dev_example_def
        bcache_env_example_def args_example_def)

section \<open>Rotation of the LVM metadata\<close>

lemma bytes_to_sector_cases:
  "bytes_to_sector by =
     (if by mod 512 = 0 then Inr (by div 512) else Inl (AssertionFailed ''by % 512 == 0''))"
  by (simp add: bytes_to_sector_def)

text \<open>
  Claim C9. With the \<open>Augeas\<close> of the source no metadata tree is read or edited:
  \<open>rotate_aug\<close> finds no segment and a total of 0 extents, and ends in a failed assertion
  for every size and either direction. It never returns, so a rotation followed by the
  opposite one yields no tree, and \<open>rotate_lv\<close> stops before writing any file.
\<close>

theorem rotate_aug_never_returns:
  "rotate_aug aug forward lv_size =
     Inl (if lv_size mod 512 \<noteq> 0 then AssertionFailed ''by % 512 == 0''
          else if lv_size div 512 \<noteq> 0
          then AssertionFailed ''extent_total * pe_sectors == bytes_to_sector(size)''
          else AssertionFailed ''extent_total > 1'') \<and>
   rotate_lv_edit aug vgcfgname forward lv_size =
     ([], Inl (if lv_size mod 512 \<noteq> 0 then AssertionFailed ''by % 512 == 0''
               else if lv_size div 512 \<noteq> 0
               then AssertionFailed ''extent_total * pe_sectors == bytes_to_sector(size)''
               else AssertionFailed ''extent_total > 1''))"
proof -
  have u: "[1..0] = ([] :: int list)" by (simp add: upto.simps)
  have r: "rotate_aug aug forward lv_size =
     Inl (if lv_size mod 512 \<noteq> 0 then AssertionFailed ''by % 512 == 0''
          else if lv_size div 512 \<noteq> 0
          then AssertionFailed ''extent_total * pe_sectors == bytes_to_sector(size)''
          else AssertionFailed ''extent_total > 1'')"
    by (simp add: rotate_aug_def get_int_def u int_result_def bytes_to_sector_cases Let_def)
  have "rotate_lv_edit aug vgcfgname forward lv_size =
     ([], Inl (if lv_size mod 512 \<noteq> 0 then AssertionFailed ''by % 512 == 0''
               else if lv_size div 512 \<noteq> 0
               then AssertionFailed ''extent_total * pe_sectors == bytes_to_sector(size)''
               else AssertionFailed ''extent_total > 1''))"
    unfolding rotate_lv_edit_def r by (simp add: bnd_def lift_def)
  from r this show ?thesis by (rule conjI)
qed

text \<open>
  The rotation of the specification's example, a volume of eight extents of 4 MiB, in
  either direction.
\<close>

lemma rotate_aug_example:
  "rotate_aug Augeas True 33554432
     = Inl (AssertionFailed ''extent_total * pe_sectors == bytes_to_sector(size)'')"
  "rotate_aug Augeas False 33554432
     = Inl (AssertionFailed ''extent_total * pe_sectors == bytes_to_sector(size)'')"
  by (simp_all add: rotate_aug_def get_int_def upto.simps int_result_def bytes_to_sector_def
        Let_def)

end
